theory Spec2Isabelle
  imports Main
begin

section \<open>The container lifecycle controller of runsc\<close>

text \<open>
  A shallow embedding of \<^verbatim>\<open>runsc/container/container.go\<close> and of
  \<^verbatim>\<open>runsc/config/flags.go\<close>. Go structs are records, enumerations are
  datatypes, a returned \<^verbatim>\<open>error\<close> and a \<^verbatim>\<open>panic\<close> are values, and every call
  that leaves the process (state file, sentry RPC, host files, signals) is an entry of an
  effect trace whose outcome is read from an environment record.
\<close>

subsection \<open>Data model\<close>

text \<open>
  \<^verbatim>\<open>Status\<close> of \<^verbatim>\<open>runsc/container/status.go\<close>. The \<^verbatim>\<open>default:\<close> branch of
  \<^verbatim>\<open>changeStatus\<close> covers integers outside the enumeration; the datatype has none.
\<close>

datatype Status = Creating | Created | Running | Paused | Stopped

text \<open>The lower and upper layer of a gofer mount (\<^verbatim>\<open>boot.GoferMountConf\<close>).\<close>

datatype GoferMountConfLowerType = NoneLower | Lisafs | Erofs

datatype GoferMountConfUpperType = NoOverlay | MemoryOverlay | SelfOverlay | AnonOverlay

record GoferMountConf =
  Lower :: GoferMountConfLowerType
  Upper :: GoferMountConfUpperType
  Size :: string

text \<open>\<^verbatim>\<open>specs.Mount\<close> and the part of \<^verbatim>\<open>specs.Spec\<close> the controller reads.\<close>

record Mount =
  Destination :: string
  Type :: string
  Source :: string
  Options :: "string list"

record Root =
  Path :: string
  Readonly :: bool

record Hooks =
  Prestart :: "string list"
  CreateRuntime :: "string list"
  CreateContainer :: "string list"
  StartContainer :: "string list"
  Poststart :: "string list"
  Poststop :: "string list"

record Process =
  Terminal :: bool
  OOMScoreAdj :: "int option"

record Spec =
  Root :: Root
  Process :: Process
  Mounts :: "Mount list"
  Annotations :: "(string \<times> string) list"
  Hooks :: "Hooks option"

text \<open>
  A pod mount hint (\<^verbatim>\<open>boot.MountHint\<close>): the mount it describes and the two
  predicates the controller asks of it.
\<close>

record MountHint =
  HintMount :: Mount
  IsSandboxLocal :: bool
  ShouldShareMount :: bool

text \<open>
  \<^verbatim>\<open>sandbox.Sandbox\<close>, persisted by value inside the container record. A cgroup is
  named by its path.
\<close>

record Sandbox =
  SandboxID :: string
  Pid :: int
  OriginalOOMScoreAdj :: int
  MountHints :: "MountHint list"
  Cgroup :: "string option"

record FullID =
  FullSandboxID :: string
  FullContainerID :: string

record StateFile =
  RootDir :: string
  FID :: FullID

text \<open>
  \<^verbatim>\<open>Container\<close>. A nil \<^verbatim>\<open>*sandbox.Sandbox\<close> is \<open>None\<close>; a nil
  \<^verbatim>\<open>GoferMountConfs\<close> slice is the empty list (\<^verbatim>\<open>append\<close> never leaves a
  non-nil empty slice). \<open>goferIsChild\<close> is not serialised.
\<close>

record Container =
  ID :: string
  Spec :: Spec
  BundleDir :: string
  Owner :: string
  ConsoleSocket :: string
  Status :: Status
  GoferPid :: int
  Sandbox :: "Sandbox option"
  CompatCgroup :: "string option"
  Saver :: StateFile
  GoferMountConfs :: "GoferMountConf list"
  goferIsChild :: bool

text \<open>A Go panic aborts the operation; the value says which one fired.\<close>

datatype panic =
    InvalidStateTransition Status Status
  | SandboxCannotBeNil
  | NilPointerDereference
  | IndexOutOfRange nat nat
  | GoferlessNeedsErofs
  | FlagNotFound string
  | UnlockFailed

subsection \<open>Status transitions\<close>

text \<open>
  \<^verbatim>\<open>func (c *Container) changeStatus(s Status)\<close>: one case per target status, in
  the order of the source; the assignment \<^verbatim>\<open>c.Status = s\<close> is reached only when no
  case panicked.
\<close>

definition changeStatus :: "Container \<Rightarrow> Status \<Rightarrow> panic + Container" where
  "changeStatus c s =
     (case s of
        Creating \<Rightarrow> Inl (InvalidStateTransition (Status c) s)
      | Created \<Rightarrow>
          if Status c \<noteq> Creating then Inl (InvalidStateTransition (Status c) s)
          else if Sandbox c = None then Inl SandboxCannotBeNil
          else Inr (c\<lparr>Status := s\<rparr>)
      | Paused \<Rightarrow>
          if Status c \<noteq> Running then Inl (InvalidStateTransition (Status c) s)
          else if Sandbox c = None then Inl SandboxCannotBeNil
          else Inr (c\<lparr>Status := s\<rparr>)
      | Running \<Rightarrow>
          if Status c \<noteq> Created \<and> Status c \<noteq> Paused
          then Inl (InvalidStateTransition (Status c) s)
          else if Sandbox c = None then Inl SandboxCannotBeNil
          else Inr (c\<lparr>Status := s\<rparr>)
      | Stopped \<Rightarrow> Inr (c\<lparr>Status := s\<rparr>))"

text \<open>The transitions of section 4.7 of the specification, as a table.\<close>

definition permitted :: "Status \<Rightarrow> Status \<Rightarrow> bool" where
  "permitted a b =
     (b = Stopped \<or> (a, b) \<in> {(Creating, Created), (Created, Running),
                                (Running, Paused), (Paused, Running)})"

text \<open>
  A sequence of requested status changes, applied in order to one container. The run
  records every change that \<^verbatim>\<open>changeStatus\<close> performed as a pair (old, new) and
  ends at the first panic.
\<close>

fun changeStatuses ::
  "Container \<Rightarrow> Status list \<Rightarrow> (Status \<times> Status) list \<Rightarrow>
   panic + (Container \<times> (Status \<times> Status) list)" where
  "changeStatuses c [] seen = Inr (c, seen)"
| "changeStatuses c (s # ss) seen =
     (case changeStatus c s of
        Inl p \<Rightarrow> Inl p
      | Inr c' \<Rightarrow> changeStatuses c' ss (seen @ [(Status c, Status c')]))"

subsection \<open>Errors, effects and the environment\<close>

text \<open>
  A Go \<^verbatim>\<open>error\<close> value. \<open>External\<close> is an error handed back by a call outside
  the controller (state file, sentry RPC, system call); \<open>Wrapped\<close> is
  \<^verbatim>\<open>fmt.Errorf("<prefix>: %v", err)\<close>; \<open>Joined\<close> is the newline-joined list
  that \<^verbatim>\<open>Destroy\<close> returns.
\<close>

datatype error =
    External string
  | ENOENT string
  | ESRCH
  | CannotInState string string Status
  | Wrapped string error
  | SandboxIsNotRunning
  | ContainerIsStillRunning
  | GoferIsStillRunning
  | UnsupportedMountType string
  | UnexpectedOverlayMedium string
  | NvidiaHookNeedsLisafs
  | Joined "error list"
  | FlagOverrideDisabled
  | RequiresAllowFlagOverride string
  | NoSuchFlag string string
  | InvalidSyntax string
  | ContainerNotStarted string
  | ContainerNotRunning string
  | NoProcessExists

text \<open>The calls that leave the process, in the order they are made.\<close>

datatype event =
    EvLock
  | EvUnlock
  | EvClose
  | EvSave Container
  | EvDestroyStateFile
  | EvRpcWait string
  | EvRpcPause string
  | EvRpcResume string
  | EvRpcSignalContainer string int bool
  | EvRpcDestroyContainer string
  | EvKill int int
  | EvWait4 int
  | EvCgroupUninstall string
  | EvRemove string
  | EvLoadSandbox string string
  | EvOpenOOMScoreAdj int
  | EvWriteOOMScoreAdj int int
  | EvHooks "string list"
  | EvOpen string

text \<open>
  The host as the controller sees it: \<open>meta\<close> is the content of the container's state
  file (\<open>None\<close> when there is none), \<open>locked\<close> says whether this process holds the
  advisory lock, \<open>files\<close> are the host paths that exist, \<open>trace\<close> is the effect trace.
\<close>

record World =
  meta :: "Container option"
  locked :: bool
  files :: "string list"
  trace :: "event list"

text \<open>
  \<^verbatim>\<open>config.OverlayMedium\<close>, a string type: none, memory, self, a host directory
  (\<^verbatim>\<open>IsBackedByAnon\<close>), or any other string. \<^verbatim>\<open>config.Overlay2\<close> is read only
  through its four accessors.
\<close>

datatype OverlayMedium =
    ConfigNoOverlay
  | ConfigMemoryOverlay
  | ConfigSelfOverlay
  | ConfigAnonOverlay string
  | ConfigOtherOverlay string

record Overlay2 =
  RootOverlayMedium :: OverlayMedium
  RootOverlaySize :: string
  SubMountOverlayMedium :: OverlayMedium
  SubMountOverlaySize :: string

record RootfsHint =
  RootfsMount :: Mount
  RootfsOverlay :: OverlayMedium
  RootfsSize :: string

text \<open>
  What \<^verbatim>\<open>createGoferProcess\<close> returns on success: the IO files for the sentry
  (named by their paths), the filestore files, the device IO file and the mounts file.
\<close>

record GoferFiles =
  ioFiles :: "string list"
  goferFilestores :: "string list"
  devIOFile :: "string option"
  mountsFile :: "string option"

datatype ContainerType =
  ContainerTypeUnspecified | ContainerTypeUnknown | ContainerTypeSandbox | ContainerTypeContainer

text \<open>
  The outcomes of the calls whose code is outside \<^verbatim>\<open>container.go\<close>: the
  \<^verbatim>\<open>sandbox\<close>, \<^verbatim>\<open>specutils\<close>, \<^verbatim>\<open>cgroup\<close>, \<^verbatim>\<open>boot\<close> packages, the
  state file and the system calls. An \<open>error option\<close> is a returned \<^verbatim>\<open>error\<close>,
  \<open>None\<close> being \<^verbatim>\<open>nil\<close>.
\<close>

record Env =
  lockResult :: "error option"
  unlockResult :: "error option"
  saveResult :: "Container \<Rightarrow> error option"
  stateFileDestroyResult :: "error option"
  sandboxIsRunning :: "Sandbox \<Rightarrow> bool"
  sandboxWait :: "string \<Rightarrow> error + int"
  sandboxPause :: "string \<Rightarrow> error option"
  sandboxResume :: "string \<Rightarrow> error option"
  sandboxSignalContainer :: "string \<Rightarrow> int \<Rightarrow> bool \<Rightarrow> error option"
  sandboxDestroyContainer :: "string \<Rightarrow> error option"
  wait4Result :: "int \<Rightarrow> error option"
  probeResult :: "int \<Rightarrow> nat \<Rightarrow> error option"
  probeAttempts :: nat
  cgroupUninstall :: "string \<Rightarrow> error option"
  removeDenied :: "string \<Rightarrow> error option"
  SelfFilestorePath :: "string \<Rightarrow> string \<Rightarrow> string"
  SpecContainerType :: "Spec \<Rightarrow> ContainerType"
  loadSandbox :: "string \<Rightarrow> string \<Rightarrow> error + Container list"
  oomOpen :: "int \<Rightarrow> error option"
  oomWrite :: "int \<Rightarrow> int \<Rightarrow> error option"
  IsGoferMount :: "Mount \<Rightarrow> bool"
  IsReadonlyMount :: "string list \<Rightarrow> bool"
  stat :: "string \<Rightarrow> error + bool"
  openFile :: "string \<Rightarrow> error option"
  GPUFunctionalityRequested :: "Spec \<Rightarrow> bool"
  TPUFunctionalityRequested :: "Spec \<Rightarrow> bool"
  GPUFunctionalityRequestedViaHook :: "Spec \<Rightarrow> bool"
  NewRootfsHint :: "Spec \<Rightarrow> error + RootfsHint option"
  startGofer :: "Container \<Rightarrow> int option \<times> (error + GoferFiles)"

text \<open>What an operation leaves behind: its value or the panic that ended it.\<close>

datatype 'a result = Return 'a | Panicked panic

definition emit :: "event \<Rightarrow> World \<Rightarrow> World" where
  "emit e w = w\<lparr>trace := trace w @ [e]\<rparr>"

text \<open>
  Modelled from the spec: the \<^verbatim>\<open>StateFile\<close> of section 4.1
  (\<^verbatim>\<open>runsc/container/state_file.go\<close> is not among the sources). \<open>lock\<close> acquires
  the advisory lock or fails; \<^verbatim>\<open>UnlockOrDie\<close> releases it and panics when it
  cannot; \<^verbatim>\<open>SaveLocked\<close> replaces the meta file atomically, so a failed save leaves
  the old content; \<^verbatim>\<open>Destroy\<close> removes the meta file.
\<close>

definition lock :: "Env \<Rightarrow> World \<Rightarrow> error option \<times> World" where
  "lock env w =
     (case lockResult env of
        Some e \<Rightarrow> (Some e, emit EvLock w)
      | None \<Rightarrow> (None, emit EvLock (w\<lparr>locked := True\<rparr>)))"

definition UnlockOrDie :: "Env \<Rightarrow> World \<Rightarrow> panic option \<times> World" where
  "UnlockOrDie env w =
     (if \<not> locked w then (Some UnlockFailed, emit EvUnlock w)
      else case unlockResult env of
             Some e \<Rightarrow> (Some UnlockFailed, emit EvUnlock w)
           | None \<Rightarrow> (None, emit EvUnlock (w\<lparr>locked := False\<rparr>)))"

definition persisted :: "Container \<Rightarrow> Container" where
  "persisted c = c\<lparr>goferIsChild := False\<rparr>"

definition SaveLocked :: "Env \<Rightarrow> Container \<Rightarrow> World \<Rightarrow> error option \<times> World" where
  "SaveLocked env c w =
     (case saveResult env c of
        Some e \<Rightarrow> (Some e, emit (EvSave (persisted c)) w)
      | None \<Rightarrow> (None, emit (EvSave (persisted c)) (w\<lparr>meta := Some (persisted c)\<rparr>)))"

definition StateFileDestroy :: "Env \<Rightarrow> World \<Rightarrow> error option \<times> World" where
  "StateFileDestroy env w =
     (case stateFileDestroyResult env of
        Some e \<Rightarrow> (Some e, emit EvDestroyStateFile w)
      | None \<Rightarrow> (None, emit EvDestroyStateFile (w\<lparr>meta := None\<rparr>)))"

text \<open>
  A deferred \<^verbatim>\<open>c.Saver.UnlockOrDie()\<close>: it runs when the body returns and when the
  body panics; its own panic replaces the body's outcome.
\<close>

definition deferUnlockOrDie ::
  "Env \<Rightarrow> 'a result \<times> Container \<times> World \<Rightarrow> 'a result \<times> Container \<times> World" where
  "deferUnlockOrDie env r =
     (case r of (out, c, w) \<Rightarrow>
        (case UnlockOrDie env w of
           (Some p, w') \<Rightarrow> (Panicked p, c, w')
         | (None, w') \<Rightarrow> (out, c, w')))"

subsection \<open>Operations on a container\<close>

text \<open>\<^verbatim>\<open>func (c *Container) saveLocked() error\<close>\<close>

definition saveLocked :: "Env \<Rightarrow> Container \<Rightarrow> World \<Rightarrow> error option \<times> World" where
  "saveLocked env c w =
     (case SaveLocked env c w of
        (Some e, w') \<Rightarrow> (Some (Wrapped ''saving container metadata'' e), w')
      | (None, w') \<Rightarrow> (None, w'))"

text \<open>\<^verbatim>\<open>func (c *Container) requireStatus(action string, statuses ...Status) error\<close>\<close>

fun requireStatus :: "string \<Rightarrow> Status list \<Rightarrow> Container \<Rightarrow> error option" where
  "requireStatus action [] c = Some (CannotInState action (ID c) (Status c))"
| "requireStatus action (s # ss) c =
     (if Status c = s then None else requireStatus action ss c)"

text \<open>\<^verbatim>\<open>func (c *Container) IsSandboxRunning() bool\<close>\<close>

definition IsSandboxRunning :: "Env \<Rightarrow> Container \<Rightarrow> bool" where
  "IsSandboxRunning env c =
     (case Sandbox c of None \<Rightarrow> False | Some sb \<Rightarrow> sandboxIsRunning env sb)"

text \<open>
  \<^verbatim>\<open>func (c *Container) Wait() (unix.WaitStatus, error)\<close>. A method of a nil
  \<^verbatim>\<open>*Sandbox\<close> that talks to the sentry dereferences the receiver.
\<close>

definition Wait :: "Env \<Rightarrow> Container \<Rightarrow> World \<Rightarrow> (int \<times> error option) result \<times> Container \<times> World" where
  "Wait env c w =
     (case Sandbox c of
        None \<Rightarrow> (Panicked NilPointerDereference, c, w)
      | Some sb \<Rightarrow>
          (case sandboxWait env (ID c) of
             Inl e \<Rightarrow> (Return (0, Some e), c, emit (EvRpcWait (ID c)) w)
           | Inr ws \<Rightarrow>
               (case changeStatus c Stopped of
                  Inl p \<Rightarrow> (Panicked p, c, emit (EvRpcWait (ID c)) w)
                | Inr c' \<Rightarrow> (Return (ws, None), c', emit (EvRpcWait (ID c)) w))))"

text \<open>\<^verbatim>\<open>func (c *Container) SignalContainer(sig unix.Signal, all bool) error\<close>\<close>

definition SignalContainer ::
  "Env \<Rightarrow> Container \<Rightarrow> int \<Rightarrow> bool \<Rightarrow> World \<Rightarrow> error option \<times> World" where
  "SignalContainer env c sig all w =
     (case requireStatus ''signal'' [Running, Stopped] c of
        Some e \<Rightarrow> (Some e, w)
      | None \<Rightarrow>
          if \<not> IsSandboxRunning env c then (Some SandboxIsNotRunning, w)
          else (sandboxSignalContainer env (ID c) sig all,
                emit (EvRpcSignalContainer (ID c) sig all) w))"

text \<open>\<^verbatim>\<open>func (c *Container) Pause() error\<close>\<close>

definition Pause :: "Env \<Rightarrow> Container \<Rightarrow> World \<Rightarrow> error option result \<times> Container \<times> World" where
  "Pause env c w =
     (case lock env w of
        (Some e, w1) \<Rightarrow> (Return (Some e), c, w1)
      | (None, w1) \<Rightarrow>
          deferUnlockOrDie env
            (if Status c \<noteq> Created \<and> Status c \<noteq> Running
             then (Return (Some (CannotInState ''pause'' (ID c) (Status c))), c, w1)
             else case Sandbox c of
                    None \<Rightarrow> (Panicked NilPointerDereference, c, w1)
                  | Some sb \<Rightarrow>
                      (case sandboxPause env (ID c) of
                         Some e \<Rightarrow> (Return (Some (Wrapped ''pausing container'' e)), c,
                                    emit (EvRpcPause (ID c)) w1)
                       | None \<Rightarrow>
                           (case changeStatus c Paused of
                              Inl p \<Rightarrow> (Panicked p, c, emit (EvRpcPause (ID c)) w1)
                            | Inr c' \<Rightarrow>
                                (case saveLocked env c' (emit (EvRpcPause (ID c)) w1) of
                                   (r, w2) \<Rightarrow> (Return r, c', w2))))))"

text \<open>\<^verbatim>\<open>func (c *Container) Resume() error\<close>\<close>

definition Resume :: "Env \<Rightarrow> Container \<Rightarrow> World \<Rightarrow> error option result \<times> Container \<times> World" where
  "Resume env c w =
     (case lock env w of
        (Some e, w1) \<Rightarrow> (Return (Some e), c, w1)
      | (None, w1) \<Rightarrow>
          deferUnlockOrDie env
            (if Status c \<noteq> Paused
             then (Return (Some (CannotInState ''resume'' (ID c) (Status c))), c, w1)
             else case Sandbox c of
                    None \<Rightarrow> (Panicked NilPointerDereference, c, w1)
                  | Some sb \<Rightarrow>
                      (case sandboxResume env (ID c) of
                         Some e \<Rightarrow> (Return (Some (Wrapped ''resuming container'' e)), c,
                                    emit (EvRpcResume (ID c)) w1)
                       | None \<Rightarrow>
                           (case changeStatus c Running of
                              Inl p \<Rightarrow> (Panicked p, c, emit (EvRpcResume (ID c)) w1)
                            | Inr c' \<Rightarrow>
                                (case saveLocked env c' (emit (EvRpcResume (ID c)) w1) of
                                   (r, w2) \<Rightarrow> (Return r, c', w2))))))"

subsection \<open>The sentry's own lifecycle control\<close>

text \<open>
  \<^verbatim>\<open>pkg/sentry/control/lifecycle.go\<close>: the state that the sentry keeps for each
  container in \<^verbatim>\<open>Lifecycle.containerMap\<close>. A thread group is named by a number; the
  kernel calls are listed in the order they are made and their results are parameters.
\<close>

datatype containerState = stateCreated | stateRunning | stateStopped

record LifecycleContainer =
  containerID :: string
  tg :: "nat option"
  state :: containerState








subsection \<open>The OOM score of the sandbox\<close>

text \<open>\<^verbatim>\<open>func isRoot(spec *specs.Spec) bool\<close>\<close>

definition isRoot :: "Env \<Rightarrow> Spec \<Rightarrow> bool" where
  "isRoot env spec = (SpecContainerType env spec \<noteq> ContainerTypeContainer)"

text \<open>
  \<^verbatim>\<open>func setOOMScoreAdj(pid int, scoreAdj int) error\<close>: a missing
  \<^verbatim>\<open>/proc/<pid>/oom_score_adj\<close> and a write that fails with \<^verbatim>\<open>ESRCH\<close> are
  not errors.
\<close>

definition setOOMScoreAdj :: "Env \<Rightarrow> int \<Rightarrow> int \<Rightarrow> World \<Rightarrow> error option \<times> World" where
  "setOOMScoreAdj env pid scoreAdj w =
     (case oomOpen env pid of
        Some (ENOENT p) \<Rightarrow> (None, emit (EvOpenOOMScoreAdj pid) w)
      | Some e \<Rightarrow> (Some e, emit (EvOpenOOMScoreAdj pid) w)
      | None \<Rightarrow>
          (let w' = emit (EvWriteOOMScoreAdj pid scoreAdj) (emit (EvOpenOOMScoreAdj pid) w)
           in case oomWrite env pid scoreAdj of
                Some ESRCH \<Rightarrow> (None, w')
              | Some e \<Rightarrow> (Some (Wrapped ''setting oom_score_adj'' e), w')
              | None \<Rightarrow> (None, w')))"

text \<open>
  The loop of \<^verbatim>\<open>adjustSandboxOOMScoreAdj\<close> over the loaded containers; the pair is
  (\<^verbatim>\<open>lowScore\<close>, \<^verbatim>\<open>scoreFound\<close>).
\<close>

fun lowestScore :: "Env \<Rightarrow> Container list \<Rightarrow> int \<times> bool \<Rightarrow> int \<times> bool" where
  "lowestScore env [] acc = acc"
| "lowestScore env (container # rest) (lowScore, scoreFound) =
     (if SpecContainerType env (Spec container) = ContainerTypeSandbox
      then lowestScore env rest (lowScore, scoreFound)
      else case OOMScoreAdj (Process (Spec container)) of
             Some v \<Rightarrow>
               if \<not> scoreFound \<or> v < lowScore then lowestScore env rest (v, True)
               else lowestScore env rest (lowScore, scoreFound)
           | None \<Rightarrow> lowestScore env rest (lowScore, scoreFound))"

text \<open>
  \<^verbatim>\<open>func adjustSandboxOOMScoreAdj(s *sandbox.Sandbox, spec *specs.Spec, rootDir
  string, destroy bool) error\<close>. \<^verbatim>\<open>LoadSandbox\<close> reads the records of the
  sandbox's containers from \<open>rootDir\<close>; \<^verbatim>\<open>s.Getpid()\<close> is the \<open>Pid\<close> field.
\<close>

definition adjustSandboxOOMScoreAdj ::
  "Env \<Rightarrow> Sandbox \<Rightarrow> Spec \<Rightarrow> string \<Rightarrow> bool \<Rightarrow> World \<Rightarrow> error option result \<times> World" where
  "adjustSandboxOOMScoreAdj env s spec rootDir destroy w =
     (if isRoot env spec \<and> destroy then (Return None, w)
      else case loadSandbox env rootDir (SandboxID s) of
             Inl e \<Rightarrow> (Return (Some (Wrapped ''loading sandbox containers'' e)),
                        emit (EvLoadSandbox rootDir (SandboxID s)) w)
           | Inr containers \<Rightarrow>
               (let w1 = emit (EvLoadSandbox rootDir (SandboxID s)) w in
                case containers of
                  [] \<Rightarrow> (Return None, w1)
                | first # _ \<Rightarrow>
                    (case lowestScore env containers (0, False) of
                       (lowScore, scoreFound) \<Rightarrow>
                         if \<not> scoreFound \<and> destroy then
                           (case Sandbox first of
                              None \<Rightarrow> (Panicked NilPointerDereference, w1)
                            | Some sb \<Rightarrow>
                                (case setOOMScoreAdj env (Pid s) (OriginalOOMScoreAdj sb) w1 of
                                   (r, w2) \<Rightarrow> (Return r, w2)))
                         else if \<not> scoreFound then (Return None, w1)
                         else (case setOOMScoreAdj env (Pid s) lowScore w1 of
                                 (r, w2) \<Rightarrow> (Return r, w2)))))"

text \<open>
  The scores that the containers of a sandbox specify, leaving out the containers whose
  type is "sandbox": the collection whose minimum section 4.8 of the specification names.
\<close>

definition specifiedScores :: "Env \<Rightarrow> Container list \<Rightarrow> int list" where
  "specifiedScores env cs =
     List.map_filter (\<lambda>c. OOMScoreAdj (Process (Spec c)))
       (filter (\<lambda>c. SpecContainerType env (Spec c) \<noteq> ContainerTypeSandbox) cs)"

subsection \<open>Planning the gofer mounts\<close>

definition Bind :: string where "Bind = ''bind''"
definition tmpfsName :: string where "tmpfsName = ''tmpfs''"
definition erofsName :: string where "erofsName = ''erofs''"



definition IsSelfBacked :: "GoferMountConf \<Rightarrow> bool" where
  "IsSelfBacked g = (Upper g = SelfOverlay)"

text \<open>
  Modelled from the spec: \<^verbatim>\<open>PodMountHints.FindMount\<close> (package \<^verbatim>\<open>boot\<close> is not
  among the sources) returns the pod-wide hint for a mount source, if there is one.
\<close>

definition FindMount :: "MountHint list \<Rightarrow> string \<Rightarrow> MountHint option" where
  "FindMount hints src = find (\<lambda>h. Source (HintMount h) = src) hints"

text \<open>
  \<^verbatim>\<open>func createGoferConf(overlayMedium config.OverlayMedium, overlaySize string,
  mountType string, mountSrc string) (boot.GoferMountConf, error)\<close>: the first
  \<^verbatim>\<open>switch\<close> (on the mount type) is \<open>lowerOfMountType\<close>, the second (on the
  overlay medium) follows.
\<close>

definition lowerOfMountType :: "string \<Rightarrow> GoferMountConfLowerType option" where
  "lowerOfMountType mountType =
     (if mountType = Bind then Some Lisafs
      else if mountType = tmpfsName then Some NoneLower
      else if mountType = erofsName then Some Erofs
      else None)"

definition createGoferConf ::
  "Env \<Rightarrow> OverlayMedium \<Rightarrow> string \<Rightarrow> string \<Rightarrow> string \<Rightarrow> error + GoferMountConf" where
  "createGoferConf env overlayMedium overlaySize mountType mountSrc =
     (case lowerOfMountType mountType of
        None \<Rightarrow> Inl (UnsupportedMountType mountType)
      | Some lower \<Rightarrow>
          (case overlayMedium of
             ConfigNoOverlay \<Rightarrow> Inr \<lparr>Lower = lower, Upper = NoOverlay, Size = []\<rparr>
           | ConfigMemoryOverlay \<Rightarrow>
               Inr \<lparr>Lower = lower, Upper = MemoryOverlay, Size = overlaySize\<rparr>
           | ConfigSelfOverlay \<Rightarrow>
               (case stat env mountSrc of
                  Inl e \<Rightarrow> Inl (Wrapped ''failed to stat mount'' e)
                | Inr isDir \<Rightarrow>
                    if \<not> isDir
                    then Inr \<lparr>Lower = lower, Upper = MemoryOverlay, Size = overlaySize\<rparr>
                    else Inr \<lparr>Lower = lower, Upper = SelfOverlay, Size = overlaySize\<rparr>)
           | ConfigAnonOverlay dir \<Rightarrow>
               Inr \<lparr>Lower = lower, Upper = AnonOverlay, Size = overlaySize\<rparr>
           | ConfigOtherOverlay m \<Rightarrow> Inl (UnexpectedOverlayMedium m)))"

text \<open>
  The body of the loop over \<^verbatim>\<open>c.Spec.Mounts\<close> in \<^verbatim>\<open>initGoferConfs\<close>, for one
  mount that the gofer serves.
\<close>

definition submountGoferConf ::
  "Env \<Rightarrow> Overlay2 \<Rightarrow> MountHint list \<Rightarrow> Mount \<Rightarrow> error + GoferMountConf" where
  "submountGoferConf env ovlConf mountHints m =
     (let overlayMedium = SubMountOverlayMedium ovlConf;
          overlaySize = SubMountOverlaySize ovlConf;
          mountType = Bind;
          overlayMedium = (if IsReadonlyMount env (Options m) then ConfigNoOverlay
                           else overlayMedium)
      in case FindMount mountHints (Source m) of
           Some hint \<Rightarrow>
             if IsSandboxLocal hint
             then createGoferConf env ConfigSelfOverlay []
                    (if \<not> IsGoferMount env (HintMount hint) then Type (HintMount hint)
                     else mountType)
                    (Source m)
             else createGoferConf env overlayMedium overlaySize mountType (Source m)
         | None \<Rightarrow> createGoferConf env overlayMedium overlaySize mountType (Source m))"

fun submountGoferConfs ::
  "Env \<Rightarrow> Overlay2 \<Rightarrow> MountHint list \<Rightarrow> Mount list \<Rightarrow> GoferMountConf list \<Rightarrow>
   error option \<times> GoferMountConf list" where
  "submountGoferConfs env ovlConf mountHints [] confs = (None, confs)"
| "submountGoferConfs env ovlConf mountHints (m # ms) confs =
     (if \<not> IsGoferMount env m then submountGoferConfs env ovlConf mountHints ms confs
      else case submountGoferConf env ovlConf mountHints m of
             Inl e \<Rightarrow> (Some e, confs)
           | Inr goferConf \<Rightarrow>
               submountGoferConfs env ovlConf mountHints ms (confs @ [goferConf]))"

text \<open>
  \<^verbatim>\<open>func (c *Container) initGoferConfs(ovlConf config.Overlay2, mountHints
  *boot.PodMountHints, rootfsHint *boot.RootfsHint) error\<close>. The configurations appended
  before an error stay in the container.
\<close>

definition initGoferConfs ::
  "Env \<Rightarrow> Container \<Rightarrow> Overlay2 \<Rightarrow> MountHint list \<Rightarrow> RootfsHint option \<Rightarrow>
   error option \<times> Container" where
  "initGoferConfs env c ovlConf mountHints rootfsHint =
     (let overlayMedium = (case rootfsHint of None \<Rightarrow> RootOverlayMedium ovlConf
                           | Some h \<Rightarrow> RootfsOverlay h);
          mountType = (case rootfsHint of None \<Rightarrow> Bind
                       | Some h \<Rightarrow> if \<not> IsGoferMount env (RootfsMount h)
                                   then Type (RootfsMount h) else Bind);
          overlaySize = (case rootfsHint of None \<Rightarrow> RootOverlaySize ovlConf
                         | Some h \<Rightarrow> RootfsSize h);
          overlayMedium = (if Readonly (Root (Spec c)) then ConfigNoOverlay else overlayMedium)
      in case createGoferConf env overlayMedium overlaySize mountType (Path (Root (Spec c))) of
           Inl e \<Rightarrow> (Some e, c)
         | Inr goferConf \<Rightarrow>
             (case submountGoferConfs env ovlConf mountHints (Mounts (Spec c))
                     (GoferMountConfs c @ [goferConf]) of
                (r, confs) \<Rightarrow> (r, c\<lparr>GoferMountConfs := confs\<rparr>)))"

text \<open>
  The configuration that \<^verbatim>\<open>initGoferConfs\<close> computes for the root mount, on
  its own.
\<close>

definition rootGoferConf ::
  "Env \<Rightarrow> Container \<Rightarrow> Overlay2 \<Rightarrow> RootfsHint option \<Rightarrow> error + GoferMountConf" where
  "rootGoferConf env c ovlConf rootfsHint =
     createGoferConf env
       (if Readonly (Root (Spec c)) then ConfigNoOverlay
        else case rootfsHint of None \<Rightarrow> RootOverlayMedium ovlConf | Some h \<Rightarrow> RootfsOverlay h)
       (case rootfsHint of None \<Rightarrow> RootOverlaySize ovlConf | Some h \<Rightarrow> RootfsSize h)
       (case rootfsHint of None \<Rightarrow> Bind
        | Some h \<Rightarrow> if \<not> IsGoferMount env (RootfsMount h) then Type (RootfsMount h) else Bind)
       (Path (Root (Spec c)))"

text \<open>
  The entries of \<^verbatim>\<open>spec.mounts\<close> that the gofer serves, in their order, and
  whether the pod mount hints mark a mount's source sandbox-local.
\<close>

definition goferMounts :: "Env \<Rightarrow> Spec \<Rightarrow> Mount list" where
  "goferMounts env spec = filter (IsGoferMount env) (Mounts spec)"

definition hasSandboxLocalHint :: "MountHint list \<Rightarrow> Mount \<Rightarrow> bool" where
  "hasSandboxLocalHint hints m =
     (case FindMount hints (Source m) of None \<Rightarrow> False | Some h \<Rightarrow> IsSandboxLocal h)"

subsection \<open>Creating the gofer\<close>




subsection \<open>Destroying a container\<close>

text \<open>
  \<^verbatim>\<open>os.Remove\<close> on the host: it fails when the host refuses, and with
  \<^verbatim>\<open>ENOENT\<close> when the path does not exist; otherwise the path is gone afterwards.
\<close>

definition osRemove :: "Env \<Rightarrow> string \<Rightarrow> World \<Rightarrow> error option \<times> World" where
  "osRemove env p w =
     (case removeDenied env p of
        Some e \<Rightarrow> (Some e, emit (EvRemove p) w)
      | None \<Rightarrow>
          if p \<in> set (files w)
          then (None, emit (EvRemove p) (w\<lparr>files := removeAll p (files w)\<rparr>))
          else (Some (ENOENT p), emit (EvRemove p) w))"

fun IsNotExist :: "error \<Rightarrow> bool" where
  "IsNotExist (ENOENT p) = True"
| "IsNotExist _ = False"

text \<open>
  Modelled from the spec: \<^verbatim>\<open>Sandbox.IsRootContainer\<close> (package \<^verbatim>\<open>sandbox\<close> is
  not among the sources); the root container is the one whose id equals its sandbox id.
\<close>

definition IsRootContainer :: "Sandbox \<Rightarrow> string \<Rightarrow> bool" where
  "IsRootContainer sb cid = (SandboxID sb = cid)"

text \<open>\<^verbatim>\<open>func (c *Container) sandboxID() string\<close>\<close>

definition sandboxID :: "Container \<Rightarrow> string" where
  "sandboxID c = FullSandboxID (FID (Saver c))"

text \<open>
  The retry loop of \<^verbatim>\<open>waitForStopped\<close>: \<^verbatim>\<open>kill(pid, 0)\<close> every 100 ms until it
  fails or the five seconds are over; \<open>probeAttempts\<close> is the number of probes that fit.
\<close>

fun probeGofer :: "Env \<Rightarrow> int \<Rightarrow> nat \<Rightarrow> nat \<Rightarrow> World \<Rightarrow> bool \<times> World" where
  "probeGofer env pid 0 k w = (False, w)"
| "probeGofer env pid (Suc n) k w =
     (case probeResult env pid k of
        None \<Rightarrow> probeGofer env pid n (Suc k) (emit (EvKill pid 0) w)
      | Some e \<Rightarrow> (True, emit (EvKill pid 0) w))"

text \<open>\<^verbatim>\<open>func (c *Container) waitForStopped() error\<close>\<close>

definition waitForStopped :: "Env \<Rightarrow> Container \<Rightarrow> World \<Rightarrow> error option \<times> Container \<times> World" where
  "waitForStopped env c w =
     (if GoferPid c = 0 then (None, c, w)
      else
        (case (if IsSandboxRunning env c
               then (case SignalContainer env c 0 False w of
                       (None, w') \<Rightarrow> (True, w')
                     | (Some e, w') \<Rightarrow> (False, w'))
               else (False, w)) of
           (True, w1) \<Rightarrow> (Some ContainerIsStillRunning, c, w1)
         | (False, w1) \<Rightarrow>
             if goferIsChild c then
               (case wait4Result env (GoferPid c) of
                  Some e \<Rightarrow> (Some (Wrapped ''error waiting the gofer process'' e), c,
                             emit (EvWait4 (GoferPid c)) w1)
                | None \<Rightarrow> (None, c\<lparr>GoferPid := 0\<rparr>, emit (EvWait4 (GoferPid c)) w1))
             else
               (case probeGofer env (GoferPid c) (probeAttempts env) 0 w1 of
                  (True, w2) \<Rightarrow> (None, c\<lparr>GoferPid := 0\<rparr>, w2)
                | (False, w2) \<Rightarrow> (Some GoferIsStillRunning, c, w2))))"

text \<open>A \<^verbatim>\<open>Cgroup.Uninstall()\<close> on a cgroup that may be nil.\<close>

definition uninstallIfAny :: "Env \<Rightarrow> string option \<Rightarrow> World \<Rightarrow> error option \<times> World" where
  "uninstallIfAny env cg w =
     (case cg of
        None \<Rightarrow> (None, w)
      | Some path \<Rightarrow> (cgroupUninstall env path, emit (EvCgroupUninstall path) w))"

text \<open>\<^verbatim>\<open>func (c *Container) stop() error\<close>\<close>

definition stop :: "Env \<Rightarrow> Container \<Rightarrow> World \<Rightarrow> error option \<times> Container \<times> World" where
  "stop env c w =
     (case (case Sandbox c of
              None \<Rightarrow> (None, None, c, w)
            | Some sb \<Rightarrow>
                (case sandboxDestroyContainer env (ID c) of
                   Some e \<Rightarrow> (Some (Wrapped ''destroying container'' e), None, c,
                              emit (EvRpcDestroyContainer (ID c)) w)
                 | None \<Rightarrow>
                     (None, if IsRootContainer sb (ID c) then Cgroup sb else None,
                      c\<lparr>Sandbox := None\<rparr>, emit (EvRpcDestroyContainer (ID c)) w))) of
        (Some e, parentCgroup, c1, w1) \<Rightarrow> (Some e, c1, w1)
      | (None, parentCgroup, c1, w1) \<Rightarrow>
          (let w2 = (if GoferPid c1 \<noteq> 0 then emit (EvKill (GoferPid c1) 9) w1 else w1) in
           case waitForStopped env c1 w2 of
             (Some e, c2, w3) \<Rightarrow> (Some e, c2, w3)
           | (None, c2, w3) \<Rightarrow>
               (case uninstallIfAny env (CompatCgroup c2) w3 of
                  (Some e, w4) \<Rightarrow> (Some e, c2, w4)
                | (None, w4) \<Rightarrow>
                    (case uninstallIfAny env parentCgroup w4 of
                       (r, w5) \<Rightarrow> (r, c2, w5)))))"

text \<open>
  \<^verbatim>\<open>func (c *Container) forEachSelfMount(fn func(mountSrc string))\<close>, with the
  state that \<^verbatim>\<open>fn\<close> changes passed along. Indexing \<^verbatim>\<open>c.GoferMountConfs\<close> past
  its end panics; the state reached by then is kept.
\<close>

fun selfMountLoop ::
  "Env \<Rightarrow> GoferMountConf list \<Rightarrow> (string \<Rightarrow> 's \<Rightarrow> 's) \<Rightarrow> Mount list \<Rightarrow> nat \<Rightarrow> 's \<Rightarrow>
   unit result \<times> 's" where
  "selfMountLoop env confs fn [] goferMntIdx st = (Return (), st)"
| "selfMountLoop env confs fn (m # ms) goferMntIdx st =
     (if \<not> IsGoferMount env m then selfMountLoop env confs fn ms goferMntIdx st
      else if goferMntIdx \<ge> length confs
      then (Panicked (IndexOutOfRange goferMntIdx (length confs)), st)
      else selfMountLoop env confs fn ms (Suc goferMntIdx)
             (if IsSelfBacked (confs ! goferMntIdx) then fn (Source m) st else st))"

definition forEachSelfMount ::
  "Env \<Rightarrow> Container \<Rightarrow> (string \<Rightarrow> 's \<Rightarrow> 's) \<Rightarrow> 's \<Rightarrow> unit result \<times> 's" where
  "forEachSelfMount env c fn st =
     (case GoferMountConfs c of
        [] \<Rightarrow> (Return (), st)
      | rootConf # _ \<Rightarrow>
          selfMountLoop env (GoferMountConfs c) fn (Mounts (Spec c)) 1
            (if IsSelfBacked rootConf then fn (Path (Root (Spec c))) st else st))"

text \<open>
  The two clean-ups of filestore files in \<^verbatim>\<open>Destroy\<close>: the callback handed to
  \<^verbatim>\<open>forEachSelfMount\<close>, and the loop over the shared mounts of the sandbox. The
  state is the list \<^verbatim>\<open>errs\<close> and the host.
\<close>

definition removeSelfFilestore ::
  "Env \<Rightarrow> Container \<Rightarrow> Sandbox option \<Rightarrow> string \<Rightarrow> error list \<times> World \<Rightarrow> error list \<times> World" where
  "removeSelfFilestore env c sb mountSrc st =
     (case st of (errs, w) \<Rightarrow>
        if (case sb of
              None \<Rightarrow> False
            | Some s \<Rightarrow> (case FindMount (MountHints s) mountSrc of
                           None \<Rightarrow> False
                         | Some hint \<Rightarrow> ShouldShareMount hint))
        then (errs, w)
        else (case osRemove env (SelfFilestorePath env mountSrc (sandboxID c)) w of
                (Some e, w') \<Rightarrow> (errs @ [Wrapped ''failed to delete filestore file'' e], w')
              | (None, w') \<Rightarrow> (errs, w')))"

fun removeSharedFilestores ::
  "Env \<Rightarrow> Container \<Rightarrow> MountHint list \<Rightarrow> error list \<times> World \<Rightarrow> error list \<times> World" where
  "removeSharedFilestores env c [] st = st"
| "removeSharedFilestores env c (hint # hints) (errs, w) =
     (if \<not> ShouldShareMount hint then removeSharedFilestores env c hints (errs, w)
      else case osRemove env (SelfFilestorePath env (Source (HintMount hint)) (sandboxID c)) w of
             (Some e, w') \<Rightarrow>
               if \<not> IsNotExist e
               then removeSharedFilestores env c hints
                      (errs @ [Wrapped ''failed to delete shared filestore file'' e], w')
               else removeSharedFilestores env c hints (errs, w')
           | (None, w') \<Rightarrow> removeSharedFilestores env c hints (errs, w'))"

text \<open>
  The end of \<^verbatim>\<open>Destroy\<close>: \<^verbatim>\<open>nil\<close> when \<^verbatim>\<open>errs\<close> is empty, else the
  one error \<^verbatim>\<open>fmt.Errorf("%s", strings.Join(errs, "\n"))\<close>.
\<close>

definition aggregate :: "error list \<Rightarrow> error option" where
  "aggregate errs = (if errs = [] then None else Some (Joined errs))"

text \<open>
  The deferred function of \<^verbatim>\<open>Destroy\<close>: \<^verbatim>\<open>UnlockOrDie\<close>, then
  \<^verbatim>\<open>_ = c.Saver.close()\<close>, which a panic of the former skips.
\<close>

definition deferUnlockAndClose ::
  "Env \<Rightarrow> 'a result \<times> Container \<times> World \<Rightarrow> 'a result \<times> Container \<times> World" where
  "deferUnlockAndClose env r =
     (case r of (out, c, w) \<Rightarrow>
        (case UnlockOrDie env w of
           (Some p, w') \<Rightarrow> (Panicked p, c, w')
         | (None, w') \<Rightarrow> (out, c, emit EvClose w')))"

text \<open>
  \<^verbatim>\<open>func (c *Container) Destroy() error\<close>. The post-stop hooks run best-effort:
  their failures are logged, not returned.
\<close>

definition Destroy :: "Env \<Rightarrow> Container \<Rightarrow> World \<Rightarrow> error option result \<times> Container \<times> World" where
  "Destroy env c w =
     (case lock env w of
        (Some e, w1) \<Rightarrow> (Return (Some e), c, w1)
      | (None, w1) \<Rightarrow>
          deferUnlockAndClose env
            (let sb = Sandbox c in
             (case stop env c w1 of
                (stopErr, c1, w2) \<Rightarrow>
                  (case StateFileDestroy env w2 of
                     (destroyErr, w3) \<Rightarrow>
                       (case forEachSelfMount env c1 (removeSelfFilestore env c1 sb)
                               ((case stopErr of
                                   None \<Rightarrow> []
                                 | Some e \<Rightarrow> [Wrapped ''stopping container'' e])
                                @ (case destroyErr of
                                     None \<Rightarrow> []
                                   | Some e \<Rightarrow> [Wrapped ''deleting container state files'' e]),
                                w3) of
                          (Panicked p, (errs, w4)) \<Rightarrow> (Panicked p, c1, w4)
                        | (Return u, (errs, w4)) \<Rightarrow>
                            (case (case sb of
                                     None \<Rightarrow> (errs, w4)
                                   | Some s \<Rightarrow>
                                       if IsRootContainer s (ID c1)
                                       then removeSharedFilestores env c1 (MountHints s) (errs, w4)
                                       else (errs, w4)) of
                               (errs, w5) \<Rightarrow>
                                 (case changeStatus c1 Stopped of
                                    Inl p \<Rightarrow> (Panicked p, c1, w5)
                                  | Inr c2 \<Rightarrow>
                                      (case (case sb of
                                               None \<Rightarrow> (Return None, w5)
                                             | Some s \<Rightarrow>
                                                 adjustSandboxOOMScoreAdj env s (Spec c2)
                                                   (RootDir (Saver c2)) True w5) of
                                         (Panicked p, w6) \<Rightarrow> (Panicked p, c2, w6)
                                       | (Return oomErr, w6) \<Rightarrow>
                                           (Return (aggregate
                                                      (errs @ (case oomErr of
                                                                 None \<Rightarrow> []
                                                               | Some e \<Rightarrow> [e]))),
                                            c2,
                                            (case Hooks (Spec c2) of
                                               None \<Rightarrow> w6
                                             | Some hooks \<Rightarrow>
                                                 emit (EvHooks (Poststop hooks)) w6))))))))))"

subsection \<open>Sequences of lifecycle operations\<close>

text \<open>
  A run of lifecycle operations on one container. It records every change of the
  container's status as a pair (old, new) and ends at the first panic.
\<close>

datatype lifecycleOp = OpPause | OpResume | OpWait | OpDestroy

definition outcomePanic :: "'a result \<Rightarrow> panic option" where
  "outcomePanic r = (case r of Return x \<Rightarrow> None | Panicked p \<Rightarrow> Some p)"

definition applyOp :: "Env \<Rightarrow> lifecycleOp \<Rightarrow> Container \<Rightarrow> World \<Rightarrow> panic option \<times> Container \<times> World" where
  "applyOp env op c w =
     (case op of
        OpPause \<Rightarrow> (case Pause env c w of (r, c', w') \<Rightarrow> (outcomePanic r, c', w'))
      | OpResume \<Rightarrow> (case Resume env c w of (r, c', w') \<Rightarrow> (outcomePanic r, c', w'))
      | OpWait \<Rightarrow> (case Wait env c w of (r, c', w') \<Rightarrow> (outcomePanic r, c', w'))
      | OpDestroy \<Rightarrow> (case Destroy env c w of (r, c', w') \<Rightarrow> (outcomePanic r, c', w')))"

fun runOps ::
  "Env \<Rightarrow> lifecycleOp list \<Rightarrow> Container \<Rightarrow> World \<Rightarrow> (Status \<times> Status) list \<Rightarrow>
   panic option \<times> Container \<times> World \<times> (Status \<times> Status) list" where
  "runOps env [] c w seen = (None, c, w, seen)"
| "runOps env (op # ops) c w seen =
     (case applyOp env op c w of
        (Some p, c', w') \<Rightarrow>
          (Some p, c', w', if Status c' \<noteq> Status c then seen @ [(Status c, Status c')] else seen)
      | (None, c', w') \<Rightarrow>
          runOps env ops c' w'
            (if Status c' \<noteq> Status c then seen @ [(Status c, Status c')] else seen))"

subsection \<open>Overriding configuration flags\<close>

text \<open>Flag names of \<^verbatim>\<open>runsc/config/flags.go\<close>.\<close>

definition flagDebug :: string where "flagDebug = ''debug''"
definition flagDebugToUserLog :: string where "flagDebugToUserLog = ''debug-to-user-log''"
definition flagStrace :: string where "flagStrace = ''strace''"
definition flagStraceSyscalls :: string where "flagStraceSyscalls = ''strace-syscalls''"
definition flagStraceLogSize :: string where "flagStraceLogSize = ''strace-log-size''"
definition flagHostUDS :: string where "flagHostUDS = ''host-uds''"
definition flagNetDisconnectOK :: string where "flagNetDisconnectOK = ''net-disconnect-ok''"
definition flagReproduceNFTables :: string where "flagReproduceNFTables = ''reproduce-nftables''"
definition flagOCISeccomp :: string where "flagOCISeccomp = ''oci-seccomp''"
definition flagOverlay2 :: string where "flagOverlay2 = ''overlay2''"
definition flagAllowFlagOverride :: string where "flagAllowFlagOverride = ''allow-flag-override''"

text \<open>
  \<^verbatim>\<open>Config\<close>, as the reflection in \<^verbatim>\<open>Override\<close> sees it: the fields that carry
  a \<^verbatim>\<open>flag\<close> tag, by flag name, each value as the flag package prints it.
  \<^verbatim>\<open>c.AllowFlagOverride\<close> is the boolean field tagged \<^verbatim>\<open>allow-flag-override\<close>.
  A \<^verbatim>\<open>flag.FlagSet\<close> gives, for each registered name, the \<^verbatim>\<open>Value.Set\<close> of the
  flag: the stored value for a string that parses, an error otherwise.
\<close>

record Config =
  flagValues :: "string \<rightharpoonup> string"

type_synonym FlagSet = "string \<rightharpoonup> (string \<Rightarrow> error + string)"

definition AllowFlagOverride :: "Config \<Rightarrow> bool" where
  "AllowFlagOverride c = (flagValues c flagAllowFlagOverride = Some ''true'')"

text \<open>\<^verbatim>\<open>strconv.ParseBool\<close>\<close>

definition ParseBool :: "string \<Rightarrow> bool option" where
  "ParseBool str =
     (if str \<in> set [''1'', ''t'', ''T'', ''TRUE'', ''true'', ''True''] then Some True
      else if str \<in> set [''0'', ''f'', ''F'', ''FALSE'', ''false'', ''False''] then Some False
      else None)"

text \<open>
  \<^verbatim>\<open>func checkOverlay2(name string, value string) error\<close>; the first argument is
  \<^verbatim>\<open>Overlay2.Set\<close> followed by a read of the medium.
\<close>

definition checkOverlay2 ::
  "(string \<Rightarrow> error + OverlayMedium) \<Rightarrow> string \<Rightarrow> string \<Rightarrow> error option" where
  "checkOverlay2 overlay2Set name value =
     (case overlay2Set value of
        Inl e \<Rightarrow> Some (Wrapped ''invalid overlay2 annotation'' e)
      | Inr medium \<Rightarrow>
          (case medium of
             ConfigNoOverlay \<Rightarrow> None
           | ConfigMemoryOverlay \<Rightarrow> None
           | ConfigSelfOverlay \<Rightarrow> None
           | ConfigAnonOverlay dir \<Rightarrow> Some (RequiresAllowFlagOverride value)
           | ConfigOtherOverlay m \<Rightarrow> Some (RequiresAllowFlagOverride value)))"

text \<open>\<^verbatim>\<open>func checkOciSeccomp(name string, value string) error\<close>\<close>

definition checkOciSeccomp :: "string \<Rightarrow> string \<Rightarrow> error option" where
  "checkOciSeccomp name value =
     (case ParseBool value of
        None \<Rightarrow> Some (InvalidSyntax value)
      | Some enable \<Rightarrow> if \<not> enable then Some (RequiresAllowFlagOverride name) else None)"

text \<open>
  \<^verbatim>\<open>var overrideAllowlist\<close>: the flags that an annotation may change without
  \<^verbatim>\<open>--allow-flag-override\<close>, each with its optional \<^verbatim>\<open>check\<close>.
\<close>

definition overrideAllowlist ::
  "(string \<Rightarrow> error + OverlayMedium) \<Rightarrow> string \<rightharpoonup> (string \<Rightarrow> string \<Rightarrow> error option) option" where
  "overrideAllowlist overlay2Set =
     map_of
       [(flagDebug, None),
        (flagDebugToUserLog, None),
        (flagStrace, None),
        (flagStraceSyscalls, None),
        (flagStraceLogSize, None),
        (flagHostUDS, None),
        (flagNetDisconnectOK, None),
        (flagReproduceNFTables, None),
        (flagOverlay2, Some (checkOverlay2 overlay2Set)),
        (flagOCISeccomp, Some checkOciSeccomp)]"

text \<open>\<^verbatim>\<open>func (c *Config) isOverrideAllowed(name string, value string) error\<close>\<close>

definition isOverrideAllowed ::
  "(string \<Rightarrow> error + OverlayMedium) \<Rightarrow> Config \<Rightarrow> string \<Rightarrow> string \<Rightarrow> error option" where
  "isOverrideAllowed overlay2Set c name value =
     (if AllowFlagOverride c then None
      else case overrideAllowlist overlay2Set name of
             Some allow \<Rightarrow>
               (case allow of
                  Some check \<Rightarrow> (case check name value of Some e \<Rightarrow> Some e | None \<Rightarrow> None)
                | None \<Rightarrow> None)
           | None \<Rightarrow> Some FlagOverrideDisabled)"

text \<open>
  \<^verbatim>\<open>func (c *Config) Override(flagSet *flag.FlagSet, name string, value string,
  force bool) error\<close>. The loop over the struct fields finds the field tagged
  \<open>name\<close> or none. The result carries the configuration as the call leaves it: the
  field is set before \<^verbatim>\<open>c.validate()\<close> runs. \<^verbatim>\<open>validate\<close> is in
  \<^verbatim>\<open>config.go\<close>, outside the sources.
\<close>

definition Override ::
  "(string \<Rightarrow> error + OverlayMedium) \<Rightarrow> (Config \<Rightarrow> error option) \<Rightarrow> FlagSet \<Rightarrow> Config \<Rightarrow>
   string \<Rightarrow> string \<Rightarrow> bool \<Rightarrow> panic + (error option \<times> Config)" where
  "Override overlay2Set validate flagSet c name value force =
     (case flagValues c name of
        None \<Rightarrow> Inr (Some (NoSuchFlag name value), c)
      | Some old \<Rightarrow>
          (case flagSet name of
             None \<Rightarrow> Inl (FlagNotFound name)
           | Some setValue \<Rightarrow>
               (case (if \<not> force then isOverrideAllowed overlay2Set c name value else None) of
                  Some e \<Rightarrow> Inr (Some (Wrapped ''error setting flag'' e), c)
                | None \<Rightarrow>
                    (case setValue value of
                       Inl e \<Rightarrow> Inr (Some (Wrapped ''error setting flag'' e), c)
                     | Inr x \<Rightarrow>
                         Inr (validate (c\<lparr>flagValues := (flagValues c)(name \<mapsto> x)\<rparr>),
                              c\<lparr>flagValues := (flagValues c)(name \<mapsto> x)\<rparr>)))))"

text \<open>
  The permission that \<^verbatim>\<open>isOverrideAllowed\<close> grants without
  \<^verbatim>\<open>--allow-flag-override\<close>: the flag is on the allowlist and its check, if it has
  one, accepts the value.
\<close>

definition allowlisted :: "(string \<Rightarrow> error + OverlayMedium) \<Rightarrow> string \<Rightarrow> string \<Rightarrow> bool" where
  "allowlisted overlay2Set name value =
     (case overrideAllowlist overlay2Set name of
        None \<Rightarrow> False
      | Some None \<Rightarrow> True
      | Some (Some check) \<Rightarrow> check name value = None)"

subsection \<open>A concrete container, environment and host\<close>

definition spec0 :: Spec where
  "spec0 = \<lparr>Root = \<lparr>Path = ''/rootfs'', Readonly = False\<rparr>, Process = \<lparr>Terminal = False, OOMScoreAdj = None\<rparr>,
            Mounts = [], Annotations = [], Hooks = None\<rparr>"

definition sandbox0 :: Sandbox where
  "sandbox0 = \<lparr>SandboxID = ''c1'', Pid = 4242, OriginalOOMScoreAdj = 0, MountHints = [],
               Cgroup = None\<rparr>"

definition container0 :: Container where
  "container0 = \<lparr>ID = ''c1'', Spec = spec0, BundleDir = ''/bundle'', Owner = ''root'',
     ConsoleSocket = [], Status = Creating, GoferPid = 0, Sandbox = Some sandbox0,
     CompatCgroup = None,
     Saver = \<lparr>RootDir = ''/var/run/runsc'', FID = \<lparr>FullSandboxID = ''c1'', FullContainerID = ''c1''\<rparr>\<rparr>,
     GoferMountConfs = [], goferIsChild = False\<rparr>"

definition env0 :: Env where
  "env0 = \<lparr>lockResult = None, unlockResult = None, saveResult = (\<lambda>c. None),
     stateFileDestroyResult = None, sandboxIsRunning = (\<lambda>sb. True),
     sandboxWait = (\<lambda>cid. Inr 0), sandboxPause = (\<lambda>cid. None), sandboxResume = (\<lambda>cid. None),
     sandboxSignalContainer = (\<lambda>cid sig all. None), sandboxDestroyContainer = (\<lambda>cid. None),
     wait4Result = (\<lambda>pid. None),
     probeResult = (\<lambda>pid k. Some ESRCH), probeAttempts = 50,
     cgroupUninstall = (\<lambda>cg. None), removeDenied = (\<lambda>p. None),
     SelfFilestorePath = (\<lambda>src sid. src @ ''/.gvisor.filestore.'' @ sid),
     SpecContainerType = (\<lambda>sp. ContainerTypeUnspecified),
     loadSandbox = (\<lambda>root sid. Inr []), oomOpen = (\<lambda>pid. None), oomWrite = (\<lambda>pid v. None),
     IsGoferMount = (\<lambda>m. Type m = ''bind'' \<and> Source m \<noteq> []),
     IsReadonlyMount = (\<lambda>opts. ''ro'' \<in> set opts),
     stat = (\<lambda>p. Inr True), openFile = (\<lambda>p. None),
     GPUFunctionalityRequested = (\<lambda>sp. False), TPUFunctionalityRequested = (\<lambda>sp. False),
     GPUFunctionalityRequestedViaHook = (\<lambda>sp. False),
     NewRootfsHint = (\<lambda>sp. Inr None),
     startGofer = (\<lambda>c. (Some 77, Inr \<lparr>ioFiles = [''io-0''], goferFilestores = [],
       devIOFile = None, mountsFile = Some ''mounts''\<rparr>))\<rparr>"

definition world0 :: World where
  "world0 = \<lparr>meta = None, locked = False, files = [], trace = []\<rparr>"


text \<open>
  A sandbox with a pause container and two containers whose scores are 100 and 300; the
  container type is read from the CRI annotation.
\<close>

definition annotatedType :: "Spec \<Rightarrow> ContainerType" where
  "annotatedType spec =
     (case map_of (Annotations spec) ''io.kubernetes.cri.container-type'' of
        None \<Rightarrow> ContainerTypeUnspecified
      | Some t \<Rightarrow> if t = ''sandbox'' then ContainerTypeSandbox
                  else if t = ''container'' then ContainerTypeContainer
                  else ContainerTypeUnknown)"

definition podContainer :: "string \<Rightarrow> string \<Rightarrow> int option \<Rightarrow> Container" where
  "podContainer cid ty score =
     container0\<lparr>ID := cid, Status := Running,
       Spec := spec0\<lparr>Process := \<lparr>Terminal = False, OOMScoreAdj = score\<rparr>,
                     Annotations := [(''io.kubernetes.cri.container-type'', ty)]\<rparr>\<rparr>"

definition pod0 :: "Container list" where
  "pod0 = [podContainer ''c1'' ''sandbox'' (Some (-998)),
           podContainer ''c2'' ''container'' (Some 100),
           podContainer ''c3'' ''container'' (Some 300)]"

definition envPod :: Env where
  "envPod = env0\<lparr>SpecContainerType := annotatedType, loadSandbox := (\<lambda>root sid. Inr pod0)\<rparr>"

text \<open>
  A container with two read-only bind mounts and a tmpfs mount; the pod mount hints mark
  the source of the first bind mount sandbox-local.
\<close>

definition mounts1 :: "Mount list" where
  "mounts1 =
     [\<lparr>Destination = ''/data'', Type = ''bind'', Source = ''/host/data'', Options = [''ro'']\<rparr>,
      \<lparr>Destination = ''/tmp'', Type = ''tmpfs'', Source = [], Options = []\<rparr>,
      \<lparr>Destination = ''/etc/hosts'', Type = ''bind'', Source = ''/host/hosts'',
        Options = [''ro'']\<rparr>]"

definition hints1 :: "MountHint list" where
  "hints1 =
     [\<lparr>HintMount = \<lparr>Destination = [], Type = ''bind'', Source = ''/host/data'', Options = []\<rparr>,
       IsSandboxLocal = True, ShouldShareMount = False\<rparr>]"

definition container1 :: Container where
  "container1 = container0\<lparr>Spec := spec0\<lparr>Mounts := mounts1\<rparr>\<rparr>"

definition overlay0 :: Overlay2 where
  "overlay0 = \<lparr>RootOverlayMedium = ConfigSelfOverlay, RootOverlaySize = [],
              SubMountOverlayMedium = ConfigNoOverlay, SubMountOverlaySize = []\<rparr>"










text \<open>
  A configuration with three of its flags, \<^verbatim>\<open>--allow-flag-override\<close> off, and the
  flag set that registers them.
\<close>

definition setBool :: "string \<Rightarrow> error + string" where
  "setBool str =
     (case ParseBool str of
        None \<Rightarrow> Inl (InvalidSyntax str)
      | Some b \<Rightarrow> Inr (if b then ''true'' else ''false''))"

definition flagSet0 :: FlagSet where
  "flagSet0 = [''debug'' \<mapsto> setBool, ''allow-flag-override'' \<mapsto> setBool, ''platform'' \<mapsto> Inr]"

definition config0 :: Config where
  "config0 = \<lparr>flagValues = [''debug'' \<mapsto> ''false'', ''allow-flag-override'' \<mapsto> ''false'',
                        ''platform'' \<mapsto> ''systrap'']\<rparr>"

definition overlay2Set0 :: "string \<Rightarrow> error + OverlayMedium" where
  "overlay2Set0 str =
     (if str = ''none'' then Inr ConfigNoOverlay
      else if str = ''root:memory'' then Inr ConfigMemoryOverlay
      else if str = ''root:self'' then Inr ConfigSelfOverlay
      else Inl (InvalidSyntax str))"

text \<open>
  A running root container whose rootfs has a self-backed overlay (the filestore file is
  on the host), with its gofer a child of this process.
\<close>

definition containerSelf :: Container where
  "containerSelf =
     container0\<lparr>Status := Running, GoferPid := 77, goferIsChild := True,
       GoferMountConfs := [\<lparr>Lower = Lisafs, Upper = SelfOverlay, Size = []\<rparr>]\<rparr>"

definition worldSelf :: World where
  "worldSelf = \<lparr>meta = Some (persisted containerSelf), locked = False,
                files = [''/rootfs/.gvisor.filestore.c1''], trace = []\<rparr>"

text \<open>
  A host on which the source of the bind mount cannot be examined, and an overlay
  configuration that backs every mount by itself.
\<close>

definition envNoStat :: Env where
  "envNoStat = env0\<lparr>stat := (\<lambda>p. if p = ''/host/data'' then Inl (ENOENT p) else Inr True)\<rparr>"

definition overlaySelf :: Overlay2 where
  "overlaySelf = \<lparr>RootOverlayMedium = ConfigSelfOverlay, RootOverlaySize = [],
                 SubMountOverlayMedium = ConfigSelfOverlay, SubMountOverlaySize = []\<rparr>"

definition containerBind :: Container where
  "containerBind =
     container0\<lparr>Sandbox := None,
       Spec := spec0\<lparr>Mounts := [\<lparr>Destination = ''/data'', Type = ''bind'',
                                    Source = ''/host/data'', Options = []\<rparr>]\<rparr>\<rparr>"

definition envRpcDown :: Env where
  "envRpcDown = env0\<lparr>sandboxDestroyContainer := (\<lambda>cid. Some (External ''connection refused''))\<rparr>"

section \<open>Properties\<close>

subsection \<open>Status transitions\<close>

lemma changeStatus_Inr:
  "changeStatus c s = Inr c' \<Longrightarrow>
     permitted (Status c) s \<and> c' = c\<lparr>Status := s\<rparr> \<and> (s \<noteq> Stopped \<longrightarrow> Sandbox c \<noteq> None)"
  by (cases s; cases "Status c") (auto simp: changeStatus_def permitted_def split: if_splits)

lemma changeStatus_not_permitted:
  "\<not> permitted (Status c) s \<Longrightarrow> changeStatus c s = Inl (InvalidStateTransition (Status c) s)"
  by (cases s; cases "Status c") (auto simp: changeStatus_def permitted_def)

lemma changeStatus_Stopped: "changeStatus c Stopped = Inr (c\<lparr>Status := Stopped\<rparr>)"
  by (simp add: changeStatus_def)

lemma changeStatuses_seen:
  "changeStatuses c ss seen = Inr (c', seen') \<Longrightarrow>
   \<forall>t \<in> set seen. permitted (fst t) (snd t) \<Longrightarrow>
   \<forall>t \<in> set seen'. permitted (fst t) (snd t)"
proof (induction ss arbitrary: c seen)
  case Nil
  then show ?case by simp
next
  case (Cons s ss)
  from Cons.prems(1) obtain c1 where c1: "changeStatus c s = Inr c1"
    and rest: "changeStatuses c1 ss (seen @ [(Status c, Status c1)]) = Inr (c', seen')"
    by (auto split: sum.splits)
  from changeStatus_Inr[OF c1] have "permitted (Status c) (Status c1)" by simp
  with Cons.prems(2)
  have "\<forall>t \<in> set (seen @ [(Status c, Status c1)]). permitted (fst t) (snd t)"
    by auto
  from Cons.IH[OF rest this] show ?case .
qed

text \<open>
  C9. Whenever \<^verbatim>\<open>changeStatus\<close> sets the status to Created, Running or Paused, the
  container's Sandbox reference is not nil (before and after the change); with a nil
  Sandbox the change to Stopped is performed and every other change panics.
\<close>

theorem changeStatus_sandbox_not_nil:
  "(changeStatus c s = Inr c' \<and> s \<in> {Created, Running, Paused} \<longrightarrow>
      Sandbox c \<noteq> None \<and> Sandbox c' \<noteq> None)
   \<and> (Sandbox d = None \<longrightarrow>
        changeStatus d Stopped = Inr (d\<lparr>Status := Stopped\<rparr>)
        \<and> (\<forall>t. t \<noteq> Stopped \<longrightarrow> (\<exists>p. changeStatus d t = Inl p)))"
proof (intro conjI impI allI)
  assume a: "changeStatus c s = Inr c' \<and> s \<in> {Created, Running, Paused}"
  then have "c' = c\<lparr>Status := s\<rparr>" and sb: "Sandbox c \<noteq> None"
    using changeStatus_Inr[of c s c'] by auto
  then show "Sandbox c \<noteq> None" and "Sandbox c' \<noteq> None" by simp_all
next
  show "changeStatus d Stopped = Inr (d\<lparr>Status := Stopped\<rparr>)" by (rule changeStatus_Stopped)
next
  fix t assume "Sandbox d = None" "t \<noteq> Stopped"
  then show "\<exists>p. changeStatus d t = Inl p"
    by (cases t) (auto simp: changeStatus_def)
qed

theorem changeStatus_sandbox_not_nil_witness:
  "changeStatus container0 Created = Inr (container0\<lparr>Status := Created\<rparr>)
   \<and> Sandbox container0 \<noteq> None
   \<and> Sandbox (container0\<lparr>Sandbox := None\<rparr>) = None
   \<and> changeStatus (container0\<lparr>Sandbox := None\<rparr>) Stopped =
       Inr (container0\<lparr>Sandbox := None, Status := Stopped\<rparr>)
   \<and> (\<exists>p. changeStatus (container0\<lparr>Sandbox := None\<rparr>) Created = Inl p)"
  using changeStatus_sandbox_not_nil[of container0 Created "container0\<lparr>Status := Created\<rparr>"
      "container0\<lparr>Sandbox := None\<rparr>"]
  by (simp add: changeStatus_def container0_def)

subsection \<open>Wait\<close>

text \<open>
  C10. A successful \<^verbatim>\<open>Wait\<close> changes only the Status field of the in-memory
  container, to Stopped. Its one effect is the wait RPC: it takes no state-file lock and
  saves nothing, so the state file, with the status persisted in it, is as before.
\<close>

theorem Wait_changes_only_memory_status:
  "Wait env c w = (Return (ws, None), c', w') \<Longrightarrow>
     c' = c\<lparr>Status := Stopped\<rparr> \<and> sandboxWait env (ID c) = Inr ws
     \<and> trace w' = trace w @ [EvRpcWait (ID c)]
     \<and> meta w' = meta w \<and> locked w' = locked w \<and> files w' = files w"
  by (auto simp: Wait_def changeStatus_Stopped emit_def split: option.splits sum.splits)

theorem Wait_changes_only_memory_status_witness:
  "Wait env0 (container0\<lparr>Status := Running\<rparr>) world0
     = (Return (0, None), container0\<lparr>Status := Stopped\<rparr>, world0\<lparr>trace := [EvRpcWait ''c1'']\<rparr>)
   \<and> meta (world0\<lparr>trace := [EvRpcWait ''c1'']\<rparr>) = meta world0
   \<and> trace (world0\<lparr>trace := [EvRpcWait ''c1'']\<rparr>) = trace world0 @ [EvRpcWait ''c1'']"
  using Wait_changes_only_memory_status[of env0 "container0\<lparr>Status := Running\<rparr>" world0 0
      "container0\<lparr>Status := Stopped\<rparr>" "world0\<lparr>trace := [EvRpcWait ''c1'']\<rparr>"]
  by (simp add: Wait_def changeStatus_def env0_def container0_def world0_def emit_def)

subsection \<open>Signals\<close>











subsection \<open>Pause\<close>

lemma Pause_rejects:
  "Status c \<in> {Creating, Paused, Stopped} \<Longrightarrow> lockResult env = None \<Longrightarrow>
   unlockResult env = None \<Longrightarrow>
   Pause env c w =
     (Return (Some (CannotInState ''pause'' (ID c) (Status c))), c,
      w\<lparr>locked := False, trace := trace w @ [EvLock, EvUnlock]\<rparr>)"
  by (auto simp: Pause_def lock_def deferUnlockOrDie_def UnlockOrDie_def emit_def)

text \<open>
  C3. The specification asks that \<^verbatim>\<open>Pause\<close> return an error, without panicking, in every
  status but Running. For a Created container whose sandbox pauses, the guard of
  \<^verbatim>\<open>Pause\<close> lets the call through, the sandbox is paused over RPC, and
  \<^verbatim>\<open>changeStatus(Paused)\<close> panics with "invalid state transition: created => paused".
\<close>

theorem Pause_of_Created_panics:
  "Pause env0 (container0\<lparr>Status := Created\<rparr>) world0 =
     (Panicked (InvalidStateTransition Created Paused), container0\<lparr>Status := Created\<rparr>,
      world0\<lparr>trace := [EvLock, EvRpcPause ''c1'', EvUnlock]\<rparr>)"
  by (simp add: Pause_def lock_def deferUnlockOrDie_def UnlockOrDie_def changeStatus_def
      env0_def container0_def world0_def emit_def)

subsection \<open>The OOM score of the sandbox\<close>

lemma specifiedScores_Nil [simp]: "specifiedScores env [] = []"
  by (simp add: specifiedScores_def)

lemma specifiedScores_Cons:
  "specifiedScores env (c # cs) =
     (if SpecContainerType env (Spec c) = ContainerTypeSandbox then specifiedScores env cs
      else case OOMScoreAdj (Process (Spec c)) of
             None \<Rightarrow> specifiedScores env cs
           | Some v \<Rightarrow> v # specifiedScores env cs)"
  by (simp add: specifiedScores_def split: option.splits)

lemma lowestScore_eq:
  "lowestScore env cs (low, found) =
     (if specifiedScores env cs = [] then (low, found)
      else if found then (min low (Min (set (specifiedScores env cs))), True)
      else (Min (set (specifiedScores env cs)), True))"
proof (induction cs arbitrary: low found)
  case Nil
  then show ?case by simp
next
  case (Cons c cs)
  show ?case
  proof (cases "SpecContainerType env (Spec c) = ContainerTypeSandbox")
    case True
    then show ?thesis by (simp add: Cons.IH specifiedScores_Cons)
  next
    case False
    show ?thesis
    proof (cases "OOMScoreAdj (Process (Spec c))")
      case None
      with False show ?thesis by (simp add: Cons.IH specifiedScores_Cons)
    next
      case (Some v)
      with False show ?thesis
        by (auto simp add: Cons.IH specifiedScores_Cons min_def Min_insert2 split: if_splits)
    qed
  qed
qed

lemma lowestScore_init:
  "lowestScore env cs (0, False) =
     (if specifiedScores env cs = [] then (0, False)
      else (Min (set (specifiedScores env cs)), True))"
  by (simp add: lowestScore_eq)

lemma setOOMScoreAdj_trace:
  "oomOpen env pid = None \<Longrightarrow>
   trace (snd (setOOMScoreAdj env pid v w)) =
     trace w @ [EvOpenOOMScoreAdj pid, EvWriteOOMScoreAdj pid v]"
  by (auto simp: setOOMScoreAdj_def emit_def Let_def split: option.splits error.splits)

lemma adjustSandboxOOMScoreAdj_eq:
  assumes "\<not> (isRoot env spec \<and> destroy)"
    and "loadSandbox env rootDir (SandboxID s) = Inr cs" and "cs \<noteq> []"
  shows "adjustSandboxOOMScoreAdj env s spec rootDir destroy w =
     (let w1 = emit (EvLoadSandbox rootDir (SandboxID s)) w in
      if specifiedScores env cs \<noteq> []
      then (Return (fst (setOOMScoreAdj env (Pid s) (Min (set (specifiedScores env cs))) w1)),
            snd (setOOMScoreAdj env (Pid s) (Min (set (specifiedScores env cs))) w1))
      else if destroy
      then (case Sandbox (hd cs) of
              None \<Rightarrow> (Panicked NilPointerDereference, w1)
            | Some sb \<Rightarrow>
                (Return (fst (setOOMScoreAdj env (Pid s) (OriginalOOMScoreAdj sb) w1)),
                 snd (setOOMScoreAdj env (Pid s) (OriginalOOMScoreAdj sb) w1)))
      else (Return None, w1))"
  using assms
  by (cases cs)
     (auto simp: adjustSandboxOOMScoreAdj_def lowestScore_init Let_def
           split: prod.splits option.splits)

text \<open>
  C7. When \<^verbatim>\<open>adjustSandboxOOMScoreAdj\<close> adjusts (it is not the destroy of the root
  container, and the sandbox still has containers on record) and the sentry's
  \<^verbatim>\<open>oom_score_adj\<close> file opens: if some container whose type is not "sandbox"
  specifies a score, the value written for the sentry's PID is the minimum of those
  scores; if none does and this is a destroy, the value written is the
  \<^verbatim>\<open>OriginalOOMScoreAdj\<close> kept in the sandbox record of the first container; if
  none does and this is not a destroy, nothing is written.
\<close>

theorem adjustSandboxOOMScoreAdj_writes_minimum:
  assumes "\<not> (isRoot env spec \<and> destroy)"
    and "loadSandbox env rootDir (SandboxID s) = Inr cs" and "cs \<noteq> []"
    and "oomOpen env (Pid s) = None"
  shows "trace (snd (adjustSandboxOOMScoreAdj env s spec rootDir destroy w)) =
     trace w @ EvLoadSandbox rootDir (SandboxID s) #
       (if specifiedScores env cs \<noteq> []
        then [EvOpenOOMScoreAdj (Pid s),
              EvWriteOOMScoreAdj (Pid s) (Min (set (specifiedScores env cs)))]
        else if destroy
        then (case Sandbox (hd cs) of
                None \<Rightarrow> []
              | Some sb \<Rightarrow> [EvOpenOOMScoreAdj (Pid s),
                            EvWriteOOMScoreAdj (Pid s) (OriginalOOMScoreAdj sb)])
        else [])"
  using assms(4)
  by (simp add: adjustSandboxOOMScoreAdj_eq[OF assms(1-3)] setOOMScoreAdj_trace Let_def emit_def
           split: option.splits)

theorem adjustSandboxOOMScoreAdj_writes_minimum_witness:
  "\<not> (isRoot envPod (Spec (podContainer ''c2'' ''container'' (Some 100))) \<and> False)
   \<and> loadSandbox envPod ''/var/run/runsc'' (SandboxID sandbox0) = Inr pod0
   \<and> pod0 \<noteq> [] \<and> oomOpen envPod (Pid sandbox0) = None
   \<and> specifiedScores envPod pod0 = [100, 300]
   \<and> trace (snd (adjustSandboxOOMScoreAdj envPod sandbox0
                    (Spec (podContainer ''c2'' ''container'' (Some 100)))
                    ''/var/run/runsc'' False world0)) =
       [EvLoadSandbox ''/var/run/runsc'' ''c1'', EvOpenOOMScoreAdj 4242,
        EvWriteOOMScoreAdj 4242 100]"
proof -
  have scores: "specifiedScores envPod pod0 = [100, 300]"
    by (simp add: specifiedScores_Cons pod0_def podContainer_def envPod_def env0_def
          annotatedType_def spec0_def container0_def)
  have hyps: "\<not> (isRoot envPod (Spec (podContainer ''c2'' ''container'' (Some 100))) \<and> False)"
    "loadSandbox envPod ''/var/run/runsc'' (SandboxID sandbox0) = Inr pod0"
    "pod0 \<noteq> []" "oomOpen envPod (Pid sandbox0) = None"
    by (simp_all add: envPod_def env0_def pod0_def)
  show ?thesis
    using adjustSandboxOOMScoreAdj_writes_minimum[OF hyps, of world0] hyps scores
    by (simp add: sandbox0_def world0_def)
qed

subsection \<open>Planning the gofer mounts\<close>

lemma createGoferConf_NoOverlay:
  "createGoferConf env ConfigNoOverlay sz ty src = Inr g \<Longrightarrow> Upper g = NoOverlay"
  by (auto simp: createGoferConf_def split: option.splits)

lemma createGoferConf_Self:
  assumes "createGoferConf env ConfigSelfOverlay sz ty src = Inr g"
  shows "\<exists>isDir. stat env src = Inr isDir
           \<and> Upper g = (if isDir then SelfOverlay else MemoryOverlay)"
proof (cases "lowerOfMountType ty")
  case None
  with assms show ?thesis by (simp add: createGoferConf_def)
next
  case (Some lower)
  show ?thesis
  proof (cases "stat env src")
    case (Inl e)
    with assms Some show ?thesis by (simp add: createGoferConf_def)
  next
    case (Inr isDir)
    with assms Some have "Upper g = (if isDir then SelfOverlay else MemoryOverlay)"
      by (cases isDir) (auto simp: createGoferConf_def)
    with Inr show ?thesis by blast
  qed
qed

lemma submountGoferConf_upper:
  assumes "submountGoferConf env ovlConf hints m = Inr g"
  shows "(hasSandboxLocalHint hints m \<longrightarrow>
            (\<exists>isDir. stat env (Source m) = Inr isDir
                      \<and> Upper g = (if isDir then SelfOverlay else MemoryOverlay)))
         \<and> (\<not> hasSandboxLocalHint hints m \<and> IsReadonlyMount env (Options m) \<longrightarrow>
              Upper g = NoOverlay)"
proof (cases "hasSandboxLocalHint hints m")
  case True
  then obtain h where h: "FindMount hints (Source m) = Some h" "IsSandboxLocal h"
    by (auto simp: hasSandboxLocalHint_def split: option.splits)
  with assms have "createGoferConf env ConfigSelfOverlay []
      (if \<not> IsGoferMount env (HintMount h) then Type (HintMount h) else Bind) (Source m) = Inr g"
    by (simp add: submountGoferConf_def Let_def)
  from createGoferConf_Self[OF this] True show ?thesis by simp
next
  case False
  show ?thesis
  proof (cases "IsReadonlyMount env (Options m)")
    case ro: True
    from False ro
    have "submountGoferConf env ovlConf hints m =
            createGoferConf env ConfigNoOverlay (SubMountOverlaySize ovlConf) Bind (Source m)"
      by (cases "FindMount hints (Source m)")
         (simp_all add: submountGoferConf_def hasSandboxLocalHint_def Let_def)
    with assms
    have "createGoferConf env ConfigNoOverlay (SubMountOverlaySize ovlConf) Bind (Source m) = Inr g"
      by simp
    from createGoferConf_NoOverlay[OF this] False show ?thesis by simp
  next
    case rw: False
    with False show ?thesis by simp
  qed
qed

lemma submountGoferConfs_ok:
  "submountGoferConfs env ovlConf hints ms confs = (None, confs') \<Longrightarrow>
   \<exists>gs. confs' = confs @ gs
        \<and> list_all2 (\<lambda>m g. submountGoferConf env ovlConf hints m = Inr g)
             (filter (IsGoferMount env) ms) gs"
proof (induction ms arbitrary: confs)
  case Nil
  then show ?case by simp
next
  case (Cons m ms)
  show ?case
  proof (cases "IsGoferMount env m")
    case False
    with Cons show ?thesis by simp
  next
    case True
    with Cons.prems obtain g where g: "submountGoferConf env ovlConf hints m = Inr g"
      and rest: "submountGoferConfs env ovlConf hints ms (confs @ [g]) = (None, confs')"
      by (cases "submountGoferConf env ovlConf hints m") auto
    from Cons.IH[OF rest] obtain gs where "confs' = (confs @ [g]) @ gs"
      and "list_all2 (\<lambda>m g. submountGoferConf env ovlConf hints m = Inr g)
             (filter (IsGoferMount env) ms) gs" by blast
    with g True show ?thesis
      by (intro exI[of _ "g # gs"]) simp
  qed
qed

lemma initGoferConfs_unfold:
  "initGoferConfs env c ovlConf hints rootfsHint =
     (case rootGoferConf env c ovlConf rootfsHint of
        Inl e \<Rightarrow> (Some e, c)
      | Inr goferConf \<Rightarrow>
          (fst (submountGoferConfs env ovlConf hints (Mounts (Spec c))
                  (GoferMountConfs c @ [goferConf])),
           c\<lparr>GoferMountConfs :=
                snd (submountGoferConfs env ovlConf hints (Mounts (Spec c))
                       (GoferMountConfs c @ [goferConf]))\<rparr>))"
  by (simp add: initGoferConfs_def rootGoferConf_def Let_def split: sum.splits prod.splits)

lemma initGoferConfs_ok:
  assumes "initGoferConfs env c ovlConf hints rootfsHint = (None, c')"
  shows "\<exists>rootConf gs. rootGoferConf env c ovlConf rootfsHint = Inr rootConf
           \<and> c' = c\<lparr>GoferMountConfs := GoferMountConfs c @ rootConf # gs\<rparr>
           \<and> list_all2 (\<lambda>m g. submountGoferConf env ovlConf hints m = Inr g)
                (goferMounts env (Spec c)) gs"
proof (cases "rootGoferConf env c ovlConf rootfsHint")
  case (Inl e)
  with assms show ?thesis by (simp add: initGoferConfs_unfold)
next
  case (Inr rootConf)
  obtain r confs where sub:
    "submountGoferConfs env ovlConf hints (Mounts (Spec c)) (GoferMountConfs c @ [rootConf])
       = (r, confs)"
    by (cases "submountGoferConfs env ovlConf hints (Mounts (Spec c))
                 (GoferMountConfs c @ [rootConf])")
  with assms Inr have r: "r = None" and c': "c' = c\<lparr>GoferMountConfs := confs\<rparr>"
    by (simp_all add: initGoferConfs_unfold)
  from submountGoferConfs_ok[OF sub[unfolded r]] obtain gs where
    "confs = (GoferMountConfs c @ [rootConf]) @ gs"
    "list_all2 (\<lambda>m g. submountGoferConf env ovlConf hints m = Inr g)
       (filter (IsGoferMount env) (Mounts (Spec c))) gs" by blast
  with c' Inr show ?thesis by (auto simp: goferMounts_def)
qed

lemma initGoferConfs_nth:
  assumes ok: "initGoferConfs env c ovlConf hints rootfsHint = (None, c')"
    and k: "k < length (goferMounts env (Spec c))"
  shows "submountGoferConf env ovlConf hints (goferMounts env (Spec c) ! k) =
           Inr (GoferMountConfs c' ! (length (GoferMountConfs c) + 1 + k))"
    and "length (GoferMountConfs c') =
           length (GoferMountConfs c) + 1 + length (goferMounts env (Spec c))"
proof -
  from initGoferConfs_ok[OF ok] obtain rootConf gs where
    confs: "GoferMountConfs c' = GoferMountConfs c @ rootConf # gs"
    and all: "list_all2 (\<lambda>m g. submountGoferConf env ovlConf hints m = Inr g)
                (goferMounts env (Spec c)) gs" by auto
  from all have len: "length gs = length (goferMounts env (Spec c))"
    by (simp add: list_all2_lengthD)
  from confs have "GoferMountConfs c' ! (length (GoferMountConfs c) + 1 + k) = (rootConf # gs) ! (Suc k)"
    by (simp add: nth_append)
  then have gk: "GoferMountConfs c' ! (length (GoferMountConfs c) + 1 + k) = gs ! k" by simp
  from all k show "submountGoferConf env ovlConf hints (goferMounts env (Spec c) ! k) =
           Inr (GoferMountConfs c' ! (length (GoferMountConfs c) + 1 + k))"
    unfolding gk by (rule list_all2_nthD)
  from confs len show "length (GoferMountConfs c') =
           length (GoferMountConfs c) + 1 + length (goferMounts env (Spec c))" by simp
qed

text \<open>
  C5. When \<^verbatim>\<open>initGoferConfs\<close> succeeds, the configurations it appends are one for
  the root and one for each gofer-served entry of \<^verbatim>\<open>spec.mounts\<close>, in order. For
  the k-th such entry: if a pod mount hint marks its source sandbox-local, the upper layer
  is SelfOverlay when the source is a directory and MemoryOverlay when it is not, read-only
  or not; for an entry without such a hint (index j) that is read-only, the upper layer
  is NoOverlay.
\<close>

theorem initGoferConfs_submount_upper:
  assumes "initGoferConfs env c ovlConf hints rootfsHint = (None, c')"
    and "k < length (goferMounts env (Spec c))"
    and "j < length (goferMounts env (Spec c))"
  shows "length (GoferMountConfs c') =
           length (GoferMountConfs c) + 1 + length (goferMounts env (Spec c))
    \<and> (hasSandboxLocalHint hints (goferMounts env (Spec c) ! k) \<longrightarrow>
          (\<exists>isDir. stat env (Source (goferMounts env (Spec c) ! k)) = Inr isDir
             \<and> Upper (GoferMountConfs c' ! (length (GoferMountConfs c) + 1 + k)) =
                 (if isDir then SelfOverlay else MemoryOverlay)))
    \<and> (\<not> hasSandboxLocalHint hints (goferMounts env (Spec c) ! j)
         \<and> IsReadonlyMount env (Options (goferMounts env (Spec c) ! j)) \<longrightarrow>
          Upper (GoferMountConfs c' ! (length (GoferMountConfs c) + 1 + j)) = NoOverlay)"
  using submountGoferConf_upper[OF initGoferConfs_nth(1)[OF assms(1,2)]]
    submountGoferConf_upper[OF initGoferConfs_nth(1)[OF assms(1,3)]]
    initGoferConfs_nth(2)[OF assms(1,2)]
  by blast

lemma example_initGoferConfs:
  "initGoferConfs env0 container1 overlay0 hints1 None =
     (None, container1\<lparr>GoferMountConfs :=
        [\<lparr>Lower = Lisafs, Upper = SelfOverlay, Size = []\<rparr>,
         \<lparr>Lower = Lisafs, Upper = SelfOverlay, Size = []\<rparr>,
         \<lparr>Lower = Lisafs, Upper = NoOverlay, Size = []\<rparr>]\<rparr>)"
  by (simp add: initGoferConfs_def submountGoferConf_def createGoferConf_def lowerOfMountType_def
      FindMount_def Bind_def tmpfsName_def erofsName_def
      env0_def container1_def container0_def spec0_def overlay0_def hints1_def mounts1_def Let_def)

lemma example_goferMounts: "goferMounts env0 (Spec container1) = [mounts1 ! 0, mounts1 ! 2]"
  by (simp add: goferMounts_def env0_def container1_def container0_def spec0_def mounts1_def)

theorem initGoferConfs_submount_upper_witness:
  "initGoferConfs env0 container1 overlay0 hints1 None =
     (None, container1\<lparr>GoferMountConfs :=
        [\<lparr>Lower = Lisafs, Upper = SelfOverlay, Size = []\<rparr>,
         \<lparr>Lower = Lisafs, Upper = SelfOverlay, Size = []\<rparr>,
         \<lparr>Lower = Lisafs, Upper = NoOverlay, Size = []\<rparr>]\<rparr>)
   \<and> goferMounts env0 (Spec container1) = [mounts1 ! 0, mounts1 ! 2]
   \<and> hasSandboxLocalHint hints1 (mounts1 ! 0)
   \<and> IsReadonlyMount env0 (Options (mounts1 ! 0))
   \<and> stat env0 (Source (mounts1 ! 0)) = Inr True
   \<and> \<not> hasSandboxLocalHint hints1 (mounts1 ! 2)
   \<and> IsReadonlyMount env0 (Options (mounts1 ! 2))
   \<and> Upper (GoferMountConfs (container1\<lparr>GoferMountConfs :=
        [\<lparr>Lower = Lisafs, Upper = SelfOverlay, Size = []\<rparr>,
         \<lparr>Lower = Lisafs, Upper = SelfOverlay, Size = []\<rparr>,
         \<lparr>Lower = Lisafs, Upper = NoOverlay, Size = []\<rparr>]\<rparr>) ! 1) = SelfOverlay
   \<and> Upper (GoferMountConfs (container1\<lparr>GoferMountConfs :=
        [\<lparr>Lower = Lisafs, Upper = SelfOverlay, Size = []\<rparr>,
         \<lparr>Lower = Lisafs, Upper = SelfOverlay, Size = []\<rparr>,
         \<lparr>Lower = Lisafs, Upper = NoOverlay, Size = []\<rparr>]\<rparr>) ! 2) = NoOverlay"
proof -
  have len: "(0::nat) < length (goferMounts env0 (Spec container1))"
    "(1::nat) < length (goferMounts env0 (Spec container1))"
    by (simp_all add: example_goferMounts)
  have h: "hasSandboxLocalHint hints1 (mounts1 ! 0)" "\<not> hasSandboxLocalHint hints1 (mounts1 ! 2)"
    "IsReadonlyMount env0 (Options (mounts1 ! 0))" "IsReadonlyMount env0 (Options (mounts1 ! 2))"
    "stat env0 (Source (mounts1 ! 0)) = Inr True"
    by (simp_all add: hasSandboxLocalHint_def FindMount_def hints1_def mounts1_def env0_def)
  have c0: "GoferMountConfs container1 = []"
    by (simp add: container1_def container0_def)
  show ?thesis
    using initGoferConfs_submount_upper[OF example_initGoferConfs len] h example_initGoferConfs
      example_goferMounts c0
    by simp
qed

subsection \<open>Creating the gofer\<close>

lemma lowerOfMountType_erofs: "lowerOfMountType erofsName = Some Erofs"
  by (simp add: lowerOfMountType_def erofsName_def Bind_def tmpfsName_def)



lemma lowerOfMountType_tmpfs: "lowerOfMountType tmpfsName = Some NoneLower"
  by (simp add: lowerOfMountType_def tmpfsName_def Bind_def)







subsection \<open>Overriding configuration flags\<close>

lemma isOverrideAllowed_None_iff:
  "isOverrideAllowed ovl c name val = None \<longleftrightarrow> AllowFlagOverride c \<or> allowlisted ovl name val"
  by (auto simp: isOverrideAllowed_def allowlisted_def split: option.splits)

lemma Override_refused:
  assumes "isOverrideAllowed ovl c name val = Some e"
    and "flagValues c name = None \<or> flagSet name \<noteq> None"
  shows "\<exists>e'. Override ovl validate flagSet c name val False = Inr (Some e', c)"
proof (cases "flagValues c name")
  case None
  then show ?thesis by (simp add: Override_def)
next
  case (Some old)
  with assms obtain setValue where "flagSet name = Some setValue" by auto
  with assms Some show ?thesis by (simp add: Override_def)
qed

lemma Override_unregistered_flag_panics:
  assumes "flagValues c name = Some old" and "flagSet name = None"
  shows "Override ovl validate flagSet c name val force = Inl (FlagNotFound name)"
  using assms by (simp add: Override_def)

lemma Override_changed:
  assumes "Override ovl validate flagSet c name val force = Inr (r, c')" and "c' \<noteq> c"
  shows "force \<or> isOverrideAllowed ovl c name val = None"
  using assms by (auto simp: Override_def split: option.splits sum.splits if_splits)

lemma Override_force_ignores_permission:
  assumes "flagValues c name = Some old" and "flagSet name = Some setValue"
    and "setValue val = Inr x"
  shows "Override ovl validate flagSet c name val True =
           Inr (validate (c\<lparr>flagValues := (flagValues c)(name \<mapsto> x)\<rparr>),
                c\<lparr>flagValues := (flagValues c)(name \<mapsto> x)\<rparr>)"
  using assms by (simp add: Override_def)

text \<open>
  C4, as the specification states it, fails. With \<^verbatim>\<open>--allow-flag-override\<close> off, the
  annotation \<^verbatim>\<open>dev.gvisor.flag.debug=true\<close> is applied, because \<^verbatim>\<open>debug\<close> is on
  the allowlist; with it on, \<^verbatim>\<open>dev.gvisor.flag.platform=kvm\<close> is applied although
  \<^verbatim>\<open>platform\<close> is not on the allowlist. Either permission is enough; the specification
  asks for both.
\<close>

theorem Override_needs_only_one_permission:
  "\<not> AllowFlagOverride config0
   \<and> flagValues config0 ''debug'' = Some ''false''
   \<and> Override overlay2Set0 (\<lambda>c. None) flagSet0 config0 ''debug'' ''true'' False =
       Inr (None, config0\<lparr>flagValues := (flagValues config0)(''debug'' \<mapsto> ''true'')\<rparr>)
   \<and> AllowFlagOverride (config0\<lparr>flagValues := (flagValues config0)(''allow-flag-override'' \<mapsto> ''true'')\<rparr>)
   \<and> \<not> allowlisted overlay2Set0 ''platform'' ''kvm''
   \<and> Override overlay2Set0 (\<lambda>c. None) flagSet0
         (config0\<lparr>flagValues := (flagValues config0)(''allow-flag-override'' \<mapsto> ''true'')\<rparr>)
         ''platform'' ''kvm'' False =
       Inr (None, config0\<lparr>flagValues := (flagValues config0)(''allow-flag-override'' \<mapsto> ''true'',
                                                              ''platform'' \<mapsto> ''kvm'')\<rparr>)"
  by (simp add: Override_def isOverrideAllowed_def AllowFlagOverride_def allowlisted_def
      overrideAllowlist_def flagDebug_def flagDebugToUserLog_def flagStrace_def
      flagStraceSyscalls_def flagStraceLogSize_def flagHostUDS_def flagNetDisconnectOK_def
      flagReproduceNFTables_def flagOverlay2_def flagOCISeccomp_def flagAllowFlagOverride_def
      config0_def flagSet0_def setBool_def ParseBool_def)

text \<open>
  C4, amended. An override requested through an annotation (\<^verbatim>\<open>Override\<close> with
  \<open>force = false\<close>) changes the configuration only when the runtime configuration allows
  flag overrides or the named flag is on the allowlist and its check accepts the value.
  When neither holds, \<^verbatim>\<open>Override\<close> returns an error and leaves the configuration
  as it was, whether or not the name is that of a configuration field. Left out is only a
  configuration field whose flag the flag set lacks: there the code panics before it
  looks at the permission (lemma \<open>Override_unregistered_flag_panics\<close>).
\<close>

theorem Override_permission:
  "(Override ovl validate flagSet c name val False = Inr (r, c') \<and> c' \<noteq> c \<longrightarrow>
      AllowFlagOverride c \<or> allowlisted ovl name val)
   \<and> (\<not> AllowFlagOverride d \<and> \<not> allowlisted ovl name' val'
        \<and> (flagValues d name' = None \<or> flagSet name' \<noteq> None) \<longrightarrow>
        (\<exists>e. Override ovl validate flagSet d name' val' False = Inr (Some e, d)))"
proof (intro conjI impI)
  assume "Override ovl validate flagSet c name val False = Inr (r, c') \<and> c' \<noteq> c"
  then have "isOverrideAllowed ovl c name val = None"
    using Override_changed[of ovl validate flagSet c name val False r c'] by simp
  then show "AllowFlagOverride c \<or> allowlisted ovl name val"
    by (simp add: isOverrideAllowed_None_iff)
next
  assume a: "\<not> AllowFlagOverride d \<and> \<not> allowlisted ovl name' val'
        \<and> (flagValues d name' = None \<or> flagSet name' \<noteq> None)"
  then have "isOverrideAllowed ovl d name' val' \<noteq> None"
    by (simp add: isOverrideAllowed_None_iff)
  then obtain e where "isOverrideAllowed ovl d name' val' = Some e" by auto
  moreover from a have "flagValues d name' = None \<or> flagSet name' \<noteq> None" by simp
  ultimately show "\<exists>e. Override ovl validate flagSet d name' val' False = Inr (Some e, d)"
    using Override_refused by blast
qed

lemma example_allowlist:
  "allowlisted overlay2Set0 ''debug'' ''true''" "\<not> allowlisted overlay2Set0 ''platform'' ''kvm''"
  by (simp_all add: allowlisted_def overrideAllowlist_def flagDebug_def flagDebugToUserLog_def
      flagStrace_def flagStraceSyscalls_def flagStraceLogSize_def flagHostUDS_def
      flagNetDisconnectOK_def flagReproduceNFTables_def flagOverlay2_def flagOCISeccomp_def)

lemma example_Override_debug:
  "Override overlay2Set0 (\<lambda>c. None) flagSet0 config0 ''debug'' ''true'' False =
     Inr (None, config0\<lparr>flagValues := (flagValues config0)(''debug'' \<mapsto> ''true'')\<rparr>)"
  by (simp add: Override_def isOverrideAllowed_def AllowFlagOverride_def overrideAllowlist_def
      flagDebug_def flagAllowFlagOverride_def config0_def flagSet0_def setBool_def ParseBool_def)

lemma example_Override_platform:
  "Override overlay2Set0 (\<lambda>c. None) flagSet0 config0 ''platform'' ''kvm'' False =
     Inr (Some (Wrapped ''error setting flag'' FlagOverrideDisabled), config0)"
  by (simp add: Override_def isOverrideAllowed_def AllowFlagOverride_def overrideAllowlist_def
      flagDebug_def flagDebugToUserLog_def flagStrace_def flagStraceSyscalls_def
      flagStraceLogSize_def flagHostUDS_def flagNetDisconnectOK_def flagReproduceNFTables_def
      flagOverlay2_def flagOCISeccomp_def flagAllowFlagOverride_def config0_def flagSet0_def)

theorem Override_permission_witness:
  "Override overlay2Set0 (\<lambda>c. None) flagSet0 config0 ''debug'' ''true'' False =
     Inr (None, config0\<lparr>flagValues := (flagValues config0)(''debug'' \<mapsto> ''true'')\<rparr>)
   \<and> config0\<lparr>flagValues := (flagValues config0)(''debug'' \<mapsto> ''true'')\<rparr> \<noteq> config0
   \<and> allowlisted overlay2Set0 ''debug'' ''true''
   \<and> \<not> AllowFlagOverride config0
   \<and> \<not> allowlisted overlay2Set0 ''platform'' ''kvm''
   \<and> flagSet0 ''platform'' \<noteq> None
   \<and> Override overlay2Set0 (\<lambda>c. None) flagSet0 config0 ''platform'' ''kvm'' False =
       Inr (Some (Wrapped ''error setting flag'' FlagOverrideDisabled), config0)"
proof -
  have ne: "config0\<lparr>flagValues := (flagValues config0)(''debug'' \<mapsto> ''true'')\<rparr> \<noteq> config0"
  proof
    assume "config0\<lparr>flagValues := (flagValues config0)(''debug'' \<mapsto> ''true'')\<rparr> = config0"
    then have "flagValues (config0\<lparr>flagValues := (flagValues config0)(''debug'' \<mapsto> ''true'')\<rparr>)
                 ''debug'' = flagValues config0 ''debug''" by simp
    then show False by (simp add: config0_def)
  qed
  have more: "\<not> AllowFlagOverride config0" "flagSet0 ''platform'' \<noteq> None"
    by (simp_all add: AllowFlagOverride_def flagAllowFlagOverride_def config0_def flagSet0_def)
  show ?thesis
    using Override_permission[of overlay2Set0 "\<lambda>c. None" flagSet0 config0 "''debug''" "''true''"
        None "config0\<lparr>flagValues := (flagValues config0)(''debug'' \<mapsto> ''true'')\<rparr>"
        config0 "''platform''" "''kvm''"]
      ne more example_allowlist example_Override_debug example_Override_platform
    by simp
qed

subsection \<open>Destroying a container\<close>

lemmas destroy_defs = Destroy_def lock_def deferUnlockAndClose_def UnlockOrDie_def stop_def
  waitForStopped_def IsSandboxRunning_def uninstallIfAny_def StateFileDestroy_def
  forEachSelfMount_def removeSelfFilestore_def osRemove_def IsSelfBacked_def IsRootContainer_def
  sandboxID_def FindMount_def changeStatus_def adjustSandboxOOMScoreAdj_def isRoot_def
  aggregate_def emit_def

text \<open>
  C2. The specification asks that two \<^verbatim>\<open>Destroy\<close> calls in a row both succeed. For a
  container whose rootfs has a self-backed overlay, the first call succeeds and removes
  the filestore file; the second call, on the same container, asks \<^verbatim>\<open>os.Remove\<close>
  for that file again, gets \<^verbatim>\<open>ENOENT\<close>, and returns the error "failed to delete
  filestore file".
\<close>

theorem Destroy_twice_second_fails:
  "Destroy env0 containerSelf worldSelf =
     (Return None,
      containerSelf\<lparr>Sandbox := None, GoferPid := 0, Status := Stopped\<rparr>,
      \<lparr>meta = None, locked = False, files = [],
       trace = [EvLock, EvRpcDestroyContainer ''c1'', EvKill 77 9, EvWait4 77,
                EvDestroyStateFile, EvRemove ''/rootfs/.gvisor.filestore.c1'', EvUnlock,
                EvClose]\<rparr>)
   \<and> Destroy env0 (containerSelf\<lparr>Sandbox := None, GoferPid := 0, Status := Stopped\<rparr>)
       \<lparr>meta = None, locked = False, files = [],
        trace = [EvLock, EvRpcDestroyContainer ''c1'', EvKill 77 9, EvWait4 77,
                 EvDestroyStateFile, EvRemove ''/rootfs/.gvisor.filestore.c1'', EvUnlock,
                 EvClose]\<rparr> =
     (Return (Some (Joined [Wrapped ''failed to delete filestore file''
                              (ENOENT ''/rootfs/.gvisor.filestore.c1'')])),
      containerSelf\<lparr>Sandbox := None, GoferPid := 0, Status := Stopped\<rparr>,
      \<lparr>meta = None, locked = False, files = [],
       trace = [EvLock, EvRpcDestroyContainer ''c1'', EvKill 77 9, EvWait4 77,
                EvDestroyStateFile, EvRemove ''/rootfs/.gvisor.filestore.c1'', EvUnlock,
                EvClose,
                EvLock, EvDestroyStateFile, EvRemove ''/rootfs/.gvisor.filestore.c1'',
                EvUnlock, EvClose]\<rparr>)"
  by (simp add: destroy_defs env0_def containerSelf_def container0_def spec0_def sandbox0_def
      worldSelf_def)

text \<open>
  A create that fails while planning a submount leaves the root configuration in the
  record; the clean-up \<^verbatim>\<open>Destroy\<close> of that record indexes
  \<^verbatim>\<open>c.GoferMountConfs\<close> past its end in \<^verbatim>\<open>forEachSelfMount\<close> and panics.
\<close>

lemma example_initGoferConfs_partial:
  "initGoferConfs envNoStat containerBind overlaySelf [] None =
     (Some (Wrapped ''failed to stat mount'' (ENOENT ''/host/data'')),
      containerBind\<lparr>GoferMountConfs := [\<lparr>Lower = Lisafs, Upper = SelfOverlay, Size = []\<rparr>]\<rparr>)"
  by (simp add: initGoferConfs_def submountGoferConf_def createGoferConf_def lowerOfMountType_def
      FindMount_def Bind_def tmpfsName_def erofsName_def envNoStat_def
      env0_def containerBind_def container0_def spec0_def overlaySelf_def Let_def)

lemma example_Destroy_partial_plan_panics:
  "Destroy envNoStat
     (containerBind\<lparr>GoferMountConfs := [\<lparr>Lower = Lisafs, Upper = SelfOverlay, Size = []\<rparr>]\<rparr>)
     world0 =
     (Panicked (IndexOutOfRange 1 1),
      containerBind\<lparr>GoferMountConfs := [\<lparr>Lower = Lisafs, Upper = SelfOverlay, Size = []\<rparr>]\<rparr>,
      \<lparr>meta = None, locked = False, files = [],
       trace = [EvLock, EvDestroyStateFile, EvRemove ''/rootfs/.gvisor.filestore.c1'', EvUnlock,
                EvClose]\<rparr>)"
  by (simp add: destroy_defs envNoStat_def env0_def containerBind_def container0_def spec0_def
      world0_def)

text \<open>
  The part of the statement that holds: an error of one step does not end the clean-up. When
  the sandbox refuses \<^verbatim>\<open>DestroyContainer\<close>, the state file and the filestore are
  still removed and the status still becomes Stopped; the error comes back in the joined
  list.
\<close>

lemma example_Destroy_continues_after_error:
  "Destroy envRpcDown containerSelf worldSelf =
     (Return (Some (Joined [Wrapped ''stopping container''
                              (Wrapped ''destroying container'' (External ''connection refused''))])),
      containerSelf\<lparr>Status := Stopped\<rparr>,
      \<lparr>meta = None, locked = False, files = [],
       trace = [EvLock, EvRpcDestroyContainer ''c1'', EvDestroyStateFile,
                EvRemove ''/rootfs/.gvisor.filestore.c1'', EvUnlock, EvClose]\<rparr>)"
  by (simp add: destroy_defs envRpcDown_def env0_def containerSelf_def container0_def spec0_def
      sandbox0_def worldSelf_def)

subsection \<open>Status transitions over lifecycle operations\<close>

lemma deferUnlockOrDie_Container:
  "deferUnlockOrDie env (out, c, w) = (out', c', w') \<Longrightarrow> c' = c"
  by (auto simp: deferUnlockOrDie_def split: prod.splits option.splits)

lemma Wait_Status:
  "Wait env c w = (r, c', w') \<Longrightarrow> Status c' = Status c \<or> permitted (Status c) (Status c')"
  by (auto simp: Wait_def permitted_def changeStatus_def split: option.splits sum.splits)

lemma Pause_Status:
  assumes "Pause env c w = (r, c', w')"
  shows "Status c' = Status c \<or> permitted (Status c) (Status c')"
proof (cases "changeStatus c Paused")
  case (Inl p)
  with assms have "c' = c"
    by (auto simp: Pause_def lock_def saveLocked_def SaveLocked_def
          split: option.splits if_splits prod.splits dest!: deferUnlockOrDie_Container)
  then show ?thesis by simp
next
  case (Inr c2)
  from changeStatus_Inr[OF Inr] have p: "permitted (Status c) Paused" "c2 = c\<lparr>Status := Paused\<rparr>"
    by auto
  from assms Inr have "c' = c \<or> c' = c2"
    by (auto simp: Pause_def lock_def saveLocked_def SaveLocked_def
          split: option.splits if_splits prod.splits dest!: deferUnlockOrDie_Container)
  with p show ?thesis by auto
qed

lemma Resume_Status:
  assumes "Resume env c w = (r, c', w')"
  shows "Status c' = Status c \<or> permitted (Status c) (Status c')"
proof (cases "changeStatus c Running")
  case (Inl p)
  with assms have "c' = c"
    by (auto simp: Resume_def lock_def saveLocked_def SaveLocked_def
          split: option.splits if_splits prod.splits dest!: deferUnlockOrDie_Container)
  then show ?thesis by simp
next
  case (Inr c2)
  from changeStatus_Inr[OF Inr] have p: "permitted (Status c) Running" "c2 = c\<lparr>Status := Running\<rparr>"
    by auto
  from assms Inr have "c' = c \<or> c' = c2"
    by (auto simp: Resume_def lock_def saveLocked_def SaveLocked_def
          split: option.splits if_splits prod.splits dest!: deferUnlockOrDie_Container)
  with p show ?thesis by auto
qed


lemma waitForStopped_Status:
  "waitForStopped env c w = (r, c', w') \<Longrightarrow> Status c' = Status c"
  by (auto simp: waitForStopped_def split: if_splits prod.splits option.splits bool.splits)

lemma stop_Status:
  assumes "stop env c w = (r, c', w')"
  shows "Status c' = Status c"
proof (cases "Sandbox c")
  case None
  with assms show ?thesis
    by (auto simp: stop_def Let_def split: prod.splits option.splits dest!: waitForStopped_Status)
next
  case (Some sb)
  show ?thesis
  proof (cases "sandboxDestroyContainer env (ID c)")
    case None
    with assms Some show ?thesis
      by (auto simp: stop_def Let_def split: prod.splits option.splits dest!: waitForStopped_Status)
  next
    case (Some e)
    with assms \<open>Sandbox c = Some sb\<close> show ?thesis
      by (simp add: stop_def)
  qed
qed

lemma deferUnlockAndClose_Container:
  "deferUnlockAndClose env (out, c, w) = (out', c', w') \<Longrightarrow> c' = c"
  by (auto simp: deferUnlockAndClose_def split: prod.splits option.splits)

lemma Destroy_Status:
  assumes "Destroy env c w = (r, c', w')"
  shows "Status c' = Status c \<or> Status c' = Stopped"
proof (cases "lock env w")
  case (Pair le w1)
  show ?thesis
  proof (cases le)
    case (Some e)
    with assms Pair show ?thesis by (simp add: Destroy_def)
  next
    case None
    obtain se c1 w2 where st: "stop env c w1 = (se, c1, w2)"
      by (cases "stop env c w1") auto
    from stop_Status[OF st] have s1: "Status c1 = Status c" .
    from assms Pair None st have "c' = c1 \<or> c' = c1\<lparr>Status := Stopped\<rparr>"
      by (auto simp: Destroy_def changeStatus_Stopped Let_def
            split: prod.splits result.splits option.splits
            dest!: deferUnlockAndClose_Container)
    with s1 show ?thesis by auto
  qed
qed

lemma applyOp_Status:
  assumes "applyOp env op c w = (r, c', w')"
  shows "Status c' = Status c \<or> permitted (Status c) (Status c')"
proof (cases op)
  case OpPause
  with assms show ?thesis
    by (auto simp: applyOp_def split: prod.splits dest: Pause_Status)
next
  case OpResume
  with assms show ?thesis
    by (auto simp: applyOp_def split: prod.splits dest: Resume_Status)
next
  case OpWait
  with assms show ?thesis
    by (auto simp: applyOp_def split: prod.splits dest: Wait_Status)
next
  case OpDestroy
  with assms obtain r0 where "Destroy env c w = (r0, c', w')"
    by (auto simp: applyOp_def split: prod.splits)
  from Destroy_Status[OF this] show ?thesis by (auto simp: permitted_def)
qed

lemma runOps_seen:
  "runOps env ops c w seen = (r, c', w', seen') \<Longrightarrow>
   \<forall>t \<in> set seen. permitted (fst t) (snd t) \<Longrightarrow>
   \<forall>t \<in> set seen'. permitted (fst t) (snd t)"
proof (induction ops arbitrary: c w seen)
  case Nil
  then show ?case by simp
next
  case (Cons op ops)
  obtain r1 c1 w1 where ap: "applyOp env op c w = (r1, c1, w1)"
    by (cases "applyOp env op c w") auto
  let ?seen1 = "if Status c1 \<noteq> Status c then seen @ [(Status c, Status c1)] else seen"
  from applyOp_Status[OF ap] Cons.prems(2)
  have ok: "\<forall>t \<in> set ?seen1. permitted (fst t) (snd t)" by auto
  show ?case
  proof (cases r1)
    case None
    with Cons.prems(1) ap have "runOps env ops c1 w1 ?seen1 = (r, c', w', seen')" by simp
    from Cons.IH[OF this ok] show ?thesis .
  next
    case (Some p)
    with Cons.prems(1) ap have "seen' = ?seen1" by auto
    with ok show ?thesis by simp
  qed
qed

text \<open>
  C1. Every status change that the engine performs is one of Creating \<open>\<rightarrow>\<close> Created,
  Created \<open>\<rightarrow>\<close> Running, Running \<open>\<rightarrow>\<close> Paused, Paused \<open>\<rightarrow>\<close> Running or any
  \<open>\<rightarrow>\<close> Stopped: over every run of Pause, Resume, Wait and Destroy on a container,
  and over every sequence of changes requested of \<^verbatim>\<open>changeStatus\<close>, which is the one
  place that assigns the status. A request for any other transition panics with "invalid
  state transition" and records nothing.
\<close>

theorem changeStatus_only_permitted:
  "(runOps env ops c w [] = (r, c', w', seen) \<longrightarrow> (\<forall>t \<in> set seen. permitted (fst t) (snd t)))
   \<and> (changeStatuses c ss [] = Inr (c2, seen2) \<longrightarrow>
        (\<forall>t \<in> set seen2. permitted (fst t) (snd t)))
   \<and> (changeStatus c s = Inr c3 \<longrightarrow> permitted (Status c) s \<and> Status c3 = s)
   \<and> (\<not> permitted (Status d) s' \<longrightarrow>
        changeStatus d s' = Inl (InvalidStateTransition (Status d) s'))"
  using runOps_seen[of env ops c w "[]" r c' w' seen] changeStatuses_seen[of c ss "[]" c2 seen2]
    changeStatus_not_permitted[of d s'] changeStatus_Inr[of c s c3]
  by auto

lemma example_runOps:
  "fst (runOps env0 [OpPause, OpResume, OpWait, OpDestroy] (container0\<lparr>Status := Running\<rparr>)
          world0 []) = None
   \<and> snd (snd (snd (runOps env0 [OpPause, OpResume, OpWait, OpDestroy]
                       (container0\<lparr>Status := Running\<rparr>) world0 []))) =
       [(Running, Paused), (Paused, Running), (Running, Stopped)]"
  by (simp add: applyOp_def outcomePanic_def Pause_def Resume_def Wait_def saveLocked_def
      SaveLocked_def deferUnlockOrDie_def destroy_defs env0_def container0_def spec0_def
      sandbox0_def world0_def)

theorem changeStatus_only_permitted_witness:
  "snd (snd (snd (runOps env0 [OpPause, OpResume, OpWait, OpDestroy]
                    (container0\<lparr>Status := Running\<rparr>) world0 []))) =
     [(Running, Paused), (Paused, Running), (Running, Stopped)]
   \<and> changeStatuses (container0\<lparr>Status := Running\<rparr>) [Paused, Running, Stopped] [] =
       Inr (container0\<lparr>Status := Stopped\<rparr>,
            [(Running, Paused), (Paused, Running), (Running, Stopped)])
   \<and> permitted Running Paused \<and> permitted Paused Running \<and> permitted Running Stopped
   \<and> changeStatus (container0\<lparr>Status := Running\<rparr>) Paused =
       Inr (container0\<lparr>Status := Paused\<rparr>)
   \<and> \<not> permitted (Status container0) Paused
   \<and> changeStatus container0 Paused = Inl (InvalidStateTransition Creating Paused)"
proof -
  let ?run = "runOps env0 [OpPause, OpResume, OpWait, OpDestroy]
                (container0\<lparr>Status := Running\<rparr>) world0 []"
  have run: "?run = (fst ?run, fst (snd ?run), fst (snd (snd ?run)),
                     [(Running, Paused), (Paused, Running), (Running, Stopped)])"
    using example_runOps by (metis prod.collapse)
  have ch: "changeStatuses (container0\<lparr>Status := Running\<rparr>) [Paused, Running, Stopped] [] =
       Inr (container0\<lparr>Status := Stopped\<rparr>,
            [(Running, Paused), (Paused, Running), (Running, Stopped)])"
    "changeStatus (container0\<lparr>Status := Running\<rparr>) Paused = Inr (container0\<lparr>Status := Paused\<rparr>)"
    "\<not> permitted (Status container0) Paused" "Status container0 = Creating"
    by (simp_all add: changeStatus_def container0_def permitted_def)
  show ?thesis
    using changeStatus_only_permitted[of env0 "[OpPause, OpResume, OpWait, OpDestroy]"
        "container0\<lparr>Status := Running\<rparr>" world0 "fst ?run" "fst (snd ?run)"
        "fst (snd (snd ?run))" "[(Running, Paused), (Paused, Running), (Running, Stopped)]"
        "[Paused, Running, Stopped]" "container0\<lparr>Status := Stopped\<rparr>"
        "[(Running, Paused), (Paused, Running), (Running, Stopped)]"
        Paused "container0\<lparr>Status := Paused\<rparr>" container0 Paused]
      run ch example_runOps
    by simp
qed

end
